theory Spec2Isabelle
  imports Complex_Main "HOL-Library.Log_Nat" "HOL-Library.Multiset"
begin

text \<open>
  A model of the inventory dashboard's components: the stock status and the summary
  metrics of \<^verbatim>\<open>Reports\<close> and \<^verbatim>\<open>Dashboard\<close>, their restock, sell and export handlers, and
  the form of \<^verbatim>\<open>AddProduct\<close>. Markup, styling, the chart and the text formatting of
  numbers are left out; \<^verbatim>\<open>onAddProduct\<close>, \<^verbatim>\<open>onUpdateStock\<close>, \<^verbatim>\<open>ExportService\<close> and the
  notification library are the environment.
\<close>

section \<open>JavaScript numbers\<close>

text \<open>
  Every numeric field of the inventory application (\<^verbatim>\<open>quantity\<close>, \<^verbatim>\<open>price\<close>,
  \<^verbatim>\<open>reorderLevel\<close>) has the TypeScript type \<^verbatim>\<open>number\<close>, an IEEE-754 binary64 value.
  A finite number is represented by the rational it denotes; \<open>NaN\<close> and the two
  infinities are separate values. The sign of zero is not represented.

  The arithmetic operators compute the exact rational result and round it to the nearest
  binary64 value, ties to the even significand (\<open>fl\<close>). Values below the normal range
  are rounded on the subnormal grid (multiples of 2 to the power -1074); a rounded magnitude of 2 to
  the power 1024 or more
  overflows to an infinity.
\<close>

datatype number = NaN | Infinity | NegInfinity | Fin rat

text \<open>\<open>expo x\<close> is the binary exponent \<open>\<lfloor>log\<^sub>2 \<bar>x\<bar>\<rfloor>\<close> of a non-zero rational.\<close>

definition expo :: "rat \<Rightarrow> int" where
  "expo x = (if 1 \<le> \<bar>x\<bar> then bitlen \<lfloor>\<bar>x\<bar>\<rfloor> - 1 else - bitlen (\<lceil>1 / \<bar>x\<bar>\<rceil> - 1))"

text \<open>The spacing of binary64 values around \<open>x\<close>: 53 significant bits.\<close>

definition ulp :: "rat \<Rightarrow> rat" where
  "ulp x = 2 powi (max (expo x) (- 1022) - 52)"

definition round_half_even :: "rat \<Rightarrow> int" where
  "round_half_even y =
     (let r = \<lfloor>y\<rfloor>; d = y - of_int r
      in if d < 1 / 2 then r else if 1 / 2 < d then r + 1 else if even r then r else r + 1)"

definition fl :: "rat \<Rightarrow> number" where
  "fl x =
     (let u = ulp x; y = of_int (round_half_even (x / u)) * u
      in if 2 ^ 1024 \<le> y then Infinity
         else if y \<le> - (2 ^ 1024) then NegInfinity
         else Fin y)"

fun is_neg :: "number \<Rightarrow> bool" where
  "is_neg NegInfinity = True"
| "is_neg (Fin x) = (x < 0)"
| "is_neg _ = False"

fun num_neg :: "number \<Rightarrow> number" where
  "num_neg (Fin x) = Fin (- x)"
| "num_neg Infinity = NegInfinity"
| "num_neg NegInfinity = Infinity"
| "num_neg NaN = NaN"

text \<open>The operator \<^verbatim>\<open>a + b\<close> on numbers.\<close>

fun num_add :: "number \<Rightarrow> number \<Rightarrow> number" where
  "num_add (Fin x) (Fin y) = fl (x + y)"
| "num_add NaN _ = NaN"
| "num_add _ NaN = NaN"
| "num_add Infinity NegInfinity = NaN"
| "num_add NegInfinity Infinity = NaN"
| "num_add Infinity _ = Infinity"
| "num_add _ Infinity = Infinity"
| "num_add NegInfinity _ = NegInfinity"
| "num_add _ NegInfinity = NegInfinity"

text \<open>The operator \<^verbatim>\<open>a - b\<close>.\<close>

definition num_sub :: "number \<Rightarrow> number \<Rightarrow> number" where
  "num_sub a b = num_add a (num_neg b)"

text \<open>The operator \<^verbatim>\<open>a * b\<close>: an infinity times zero is \<open>NaN\<close>.\<close>

fun num_mul :: "number \<Rightarrow> number \<Rightarrow> number" where
  "num_mul (Fin x) (Fin y) = fl (x * y)"
| "num_mul NaN _ = NaN"
| "num_mul _ NaN = NaN"
| "num_mul a b =
     (if a = Fin 0 \<or> b = Fin 0 then NaN
      else if is_neg a = is_neg b then Infinity else NegInfinity)"

text \<open>The operator \<^verbatim>\<open>a / b\<close>: \<open>0 / 0\<close> is \<open>NaN\<close>, any other finite number over zero is an
  infinity.\<close>

fun num_div :: "number \<Rightarrow> number \<Rightarrow> number" where
  "num_div (Fin x) (Fin y) =
     (if y = 0 then (if x = 0 then NaN else if 0 < x then Infinity else NegInfinity)
      else fl (x / y))"
| "num_div NaN _ = NaN"
| "num_div _ NaN = NaN"
| "num_div (Fin x) _ = Fin 0"
| "num_div a (Fin y) = (if is_neg a = (y < 0) then Infinity else NegInfinity)"
| "num_div _ _ = NaN"

text \<open>The comparisons \<^verbatim>\<open>a <= b\<close>, \<^verbatim>\<open>a > b\<close> and \<^verbatim>\<open>a === b\<close>: each is false when an operand
  is \<open>NaN\<close>.\<close>

fun num_le :: "number \<Rightarrow> number \<Rightarrow> bool" where
  "num_le (Fin x) (Fin y) = (x \<le> y)"
| "num_le NaN _ = False"
| "num_le _ NaN = False"
| "num_le NegInfinity _ = True"
| "num_le _ Infinity = True"
| "num_le _ _ = False"

fun num_gt :: "number \<Rightarrow> number \<Rightarrow> bool" where
  "num_gt (Fin x) (Fin y) = (y < x)"
| "num_gt NaN _ = False"
| "num_gt _ NaN = False"
| "num_gt NegInfinity _ = False"
| "num_gt _ Infinity = False"
| "num_gt _ _ = True"

fun strict_eq :: "number \<Rightarrow> number \<Rightarrow> bool" where
  "strict_eq NaN _ = False"
| "strict_eq _ NaN = False"
| "strict_eq a b = (a = b)"

text \<open>\<^verbatim>\<open>Math.max(a, b)\<close> is \<open>NaN\<close> when an argument is; \<^verbatim>\<open>Math.round(x)\<close> is the integer
  nearest to \<open>x\<close>, the larger one at a tie.\<close>

definition Math_max :: "number \<Rightarrow> number \<Rightarrow> number" where
  "Math_max a b = (if a = NaN \<or> b = NaN then NaN else if num_le a b then b else a)"

fun Math_round :: "number \<Rightarrow> number" where
  "Math_round (Fin x) = Fin (of_int \<lfloor>x + 1 / 2\<rfloor>)"
| "Math_round a = a"

text \<open>An array length as a number.\<close>

definition of_length :: "nat \<Rightarrow> number" where
  "of_length n = Fin (of_nat n)"


section \<open>Products and the stock status\<close>

text \<open>
  The object handed to \<^verbatim>\<open>onAddProduct\<close> is a \<^verbatim>\<open>Product\<close> without its \<^verbatim>\<open>id\<close>
  (\<^verbatim>\<open>Omit<Product, 'id' | ...>\<close>); \<^verbatim>\<open>Product\<close> adds the identifier.
\<close>

record ProductDraft =
  name :: string
  sku :: string
  quantity :: number
  price :: number
  reorderLevel :: number

record Product = ProductDraft +
  id_product :: string

text \<open>\<^verbatim>\<open>getProductStatus\<close> of the Reports component.\<close>

definition getProductStatus :: "Product \<Rightarrow> string" where
  "getProductStatus product =
     (if num_le (quantity product) (reorderLevel product) then ''Low Stock''
      else if num_le (quantity product) (num_mul (reorderLevel product) (Fin (3 / 2))) then ''Medium''
      else ''Good'')"

text \<open>A rendered \<^verbatim>\<open><Badge variant=...>\<close> with its text.\<close>

datatype Badge = Badge (badge_variant: string) (badge_label: string)

text \<open>The status cell of a row of the Reports table repeats the comparison inline.\<close>

definition reports_status_badge :: "Product \<Rightarrow> Badge" where
  "reports_status_badge product =
     (if num_le (quantity product) (reorderLevel product) then Badge ''destructive'' ''Low Stock''
      else if num_le (quantity product) (num_mul (reorderLevel product) (Fin (3 / 2)))
        then Badge ''secondary'' ''Medium''
      else Badge ''default'' ''Good'')"

text \<open>The status cell of a row of the Dashboard table.\<close>

definition dashboard_status_badge :: "Product \<Rightarrow> Badge" where
  "dashboard_status_badge product =
     (if num_le (quantity product) (reorderLevel product) then Badge ''destructive'' ''Low Stock''
      else Badge ''default'' ''OK'')"

text \<open>A product whose quantity and reorder level are the non-negative integers \<open>q\<close> and
  \<open>r\<close>; the other fields are those of \<open>p\<close>.\<close>

definition stocked :: "Product \<Rightarrow> nat \<Rightarrow> nat \<Rightarrow> Product" where
  "stocked p q r = p\<lparr>quantity := Fin (of_nat q), reorderLevel := Fin (of_nat r)\<rparr>"


section \<open>Summary metrics of the Reports and Dashboard components\<close>

text \<open>\<^verbatim>\<open>products.filter(p => p.quantity <= p.reorderLevel)\<close>, used by both components.\<close>

definition lowStockProducts :: "Product list \<Rightarrow> Product list" where
  "lowStockProducts products = filter (\<lambda>p. num_le (quantity p) (reorderLevel p)) products"

text \<open>\<^verbatim>\<open>products.reduce((sum, p) => sum + (p.quantity * p.price), 0)\<close>: a left-to-right
  accumulation in number arithmetic.\<close>

definition totalValue :: "Product list \<Rightarrow> number" where
  "totalValue products =
     foldl (\<lambda>sum p. num_add sum (num_mul (quantity p) (price p))) (Fin 0) products"

definition totalProducts :: "Product list \<Rightarrow> nat" where
  "totalProducts products = length products"

definition lowStockItems :: "Product list \<Rightarrow> nat" where
  "lowStockItems products = length (filter (\<lambda>p. num_le (quantity p) (reorderLevel p)) products)"

text \<open>The Stock Health card:
  \<^verbatim>\<open>Math.round(((products.length - lowStockProducts.length) / products.length) * 100)\<close>.\<close>

definition stockHealth :: "Product list \<Rightarrow> number" where
  "stockHealth products =
     Math_round
       (num_mul
          (num_div
             (num_sub (of_length (length products)) (of_length (length (lowStockProducts products))))
             (of_length (length products)))
          (Fin 100))"

text \<open>The four summary cards of the Reports page are rendered only under
  \<^verbatim>\<open>products.length > 0\<close>.\<close>

record summary_cards =
  card_total_products :: nat
  card_total_value :: number
  card_low_stock_items :: nat
  card_stock_health :: number

definition reports_summary :: "Product list \<Rightarrow> summary_cards option" where
  "reports_summary products =
     (if 0 < length products
      then Some \<lparr>card_total_products = length products,
                 card_total_value = totalValue products,
                 card_low_stock_items = length (lowStockProducts products),
                 card_stock_health = stockHealth products\<rparr>
      else None)"

text \<open>The specification's formula for the stock health, \<open>round(100 * (totalCount -
  lowStockCount) / totalCount)\<close>, in the same number arithmetic: it multiplies before it
  divides.\<close>

definition spec_stockHealthPercent :: "nat \<Rightarrow> nat \<Rightarrow> number" where
  "spec_stockHealthPercent totalCount lowStockCount =
     Math_round
       (num_div (num_mul (Fin 100) (num_sub (of_length totalCount) (of_length lowStockCount)))
          (of_length totalCount))"


section \<open>Asynchronous handlers\<close>

text \<open>
  Each handler of the views makes one call to an external collaborator and awaits it. A
  handler is modelled up to that call: it either finishes at once (\<open>Done\<close>) or issues the
  call and suspends (\<open>Await\<close>) with the component state it has written so far and the
  code that runs once the promise has settled. That code receives the outcome of the
  call and the component state of that moment. A handler completes by returning or by
  throwing, which rejects the promise the \<^verbatim>\<open>async\<close> function returned.

  A state setter (\<^verbatim>\<open>setProcessingId\<close>, \<^verbatim>\<open>setLoading\<close>, \<^verbatim>\<open>setIsExporting\<close>, \<^verbatim>\<open>setFormData\<close>)
  updates the state at once, and a handler reads the state of the moment it is invoked.
  A rejection is either an \<^verbatim>\<open>Error\<close> object with its message or some other value, which
  is all the handlers distinguish.
\<close>

datatype rejection = ErrorObject string | OtherValue

datatype outcome = Resolved | Rejected rejection

datatype completion = Returned | Thrown rejection

text \<open>Notification texts; \<open>RestockedUnits n\<close> is the template
  \<^verbatim>\<open>`Successfully restocked ${n} units!`\<close>.\<close>

datatype message = Text string | RestockedUnits number

datatype effect = ToastSuccess message | ToastError message | ConsoleError string rejection

record exportData =
  data_products :: "Product list"
  data_lowStockProducts :: "Product list"
  data_totalValue :: number
  data_generatedDate :: string

datatype call =
    onUpdateStock string number
  | onAddProduct ProductDraft
  | ExportService_exportToPDF exportData
  | ExportService_exportToExcel exportData

datatype 's step =
    Done completion 's
  | Await call 's "outcome \<Rightarrow> 's \<Rightarrow> completion \<times> 's"

fun issued :: "'s step \<Rightarrow> call option" where
  "issued (Done c s) = None"
| "issued (Await c s k) = Some c"

fun suspended :: "'s step \<Rightarrow> 's" where
  "suspended (Done c s) = s"
| "suspended (Await c s k) = s"

text \<open>The rest of a handler once its call has settled with \<open>out\<close>, in the state \<open>s'\<close> the
  component then has.\<close>

fun settle :: "'s step \<Rightarrow> outcome \<Rightarrow> 's \<Rightarrow> completion \<times> 's" where
  "settle (Done c s) out s' = (c, s')"
| "settle (Await c s k) out s' = k out s'"

text \<open>Statements after the call: a state update, sequencing, the \<^verbatim>\<open>await\<close> itself, and
  \<^verbatim>\<open>try { ... } catch (error) { ... } finally { ... }\<close>.\<close>

type_synonym 's block = "'s \<Rightarrow> completion \<times> 's"

definition eff :: "('s \<Rightarrow> 's) \<Rightarrow> 's block" where
  "eff f s = (Returned, f s)"

definition then_do :: "'s block \<Rightarrow> 's block \<Rightarrow> 's block" where
  "then_do a b s = (case a s of (Returned, s1) \<Rightarrow> b s1 | (Thrown e, s1) \<Rightarrow> (Thrown e, s1))"

definition await :: "outcome \<Rightarrow> 's block" where
  "await out s = (case out of Resolved \<Rightarrow> (Returned, s) | Rejected e \<Rightarrow> (Thrown e, s))"

definition try_catch_finally ::
  "'s block \<Rightarrow> (rejection \<Rightarrow> 's block) \<Rightarrow> ('s \<Rightarrow> 's) \<Rightarrow> 's block" where
  "try_catch_finally body handler finalizer s =
     (case body s of
        (Returned, s1) \<Rightarrow> (Returned, finalizer s1)
      | (Thrown e, s1) \<Rightarrow> (case handler e s1 of (c, s2) \<Rightarrow> (c, finalizer s2)))"

text \<open>Every component state carries the notifications and console lines emitted so far.\<close>

record view =
  emitted :: "effect list"

definition emit :: "effect \<Rightarrow> 'a view_scheme \<Rightarrow> 'a view_scheme" where
  "emit e s = s\<lparr>emitted := emitted s @ [e]\<rparr>"


subsection \<open>Dashboard\<close>

text \<open>The state variable \<^verbatim>\<open>processingId\<close>. (The component also declares \<^verbatim>\<open>loading\<close>, which
  it neither reads nor writes.)\<close>

record dashboard_state = view +
  processingId :: "string option"

definition handleRestock_settled :: "number \<Rightarrow> outcome \<Rightarrow> dashboard_state block" where
  "handleRestock_settled restockAmount out =
     try_catch_finally
       (then_do (await out) (eff (emit (ToastSuccess (RestockedUnits restockAmount)))))
       (\<lambda>error. eff (emit (ToastError (Text ''Failed to restock. Please try again.''))))
       (\<lambda>s. s\<lparr>processingId := None\<rparr>)"

definition handleRestock :: "Product list \<Rightarrow> string \<Rightarrow> dashboard_state \<Rightarrow> dashboard_state step" where
  "handleRestock products productId s =
     (case find (\<lambda>p. id_product p = productId) products of
        Some product \<Rightarrow>
          (let restockAmount = Math_max (Fin 10) (num_mul (reorderLevel product) (Fin 2))
           in Await (onUpdateStock productId restockAmount) (s\<lparr>processingId := Some productId\<rparr>)
                (handleRestock_settled restockAmount))
      | None \<Rightarrow> Done Returned s)"

definition handleSell_settled :: "outcome \<Rightarrow> dashboard_state block" where
  "handleSell_settled out =
     try_catch_finally
       (then_do (await out) (eff (emit (ToastSuccess (Text ''Successfully sold 1 unit!'')))))
       (\<lambda>error. eff (emit (ToastError (Text ''Failed to sell. Please try again.''))))
       (\<lambda>s. s\<lparr>processingId := None\<rparr>)"

definition handleSell :: "Product list \<Rightarrow> string \<Rightarrow> dashboard_state \<Rightarrow> dashboard_state step" where
  "handleSell products productId s =
     (case find (\<lambda>p. id_product p = productId) products of
        Some product \<Rightarrow>
          (if num_gt (quantity product) (Fin 0)
           then Await (onUpdateStock productId (Fin (- 1))) (s\<lparr>processingId := Some productId\<rparr>)
                  handleSell_settled
           else Done Returned s)
      | None \<Rightarrow> Done Returned s)"

text \<open>The Restock and Sell buttons of a table row do not run these handlers: they call the
  \<^verbatim>\<open>onNavigateToUpdateStock\<close> property. The Sell button carries
  \<^verbatim>\<open>disabled={product.quantity === 0}\<close>.\<close>

datatype intent = onNavigateToUpdateStock string string | onViewProduct string



definition sell_button_disabled :: "Product \<Rightarrow> bool" where
  "sell_button_disabled product = strict_eq (quantity product) (Fin 0)"


subsection \<open>Reports\<close>

datatype export_kind = pdf | excel

record reports_state = view +
  isExporting :: "export_kind option"

text \<open>\<open>now\<close> stands for \<^verbatim>\<open>new Date().toLocaleString()\<close>.\<close>

definition export_data :: "Product list \<Rightarrow> string \<Rightarrow> exportData" where
  "export_data products now =
     \<lparr>data_products = products,
      data_lowStockProducts = lowStockProducts products,
      data_totalValue = totalValue products,
      data_generatedDate = now\<rparr>"

definition error_message :: "rejection \<Rightarrow> string \<Rightarrow> string" where
  "error_message error fallback = (case error of ErrorObject m \<Rightarrow> m | OtherValue \<Rightarrow> fallback)"

definition exportToPDF_settled :: "outcome \<Rightarrow> reports_state block" where
  "exportToPDF_settled out =
     try_catch_finally
       (then_do (await out) (eff (emit (ToastSuccess (Text ''PDF report exported successfully!'')))))
       (\<lambda>error.
          then_do (eff (emit (ConsoleError ''Error exporting PDF:'' error)))
            (eff (emit (ToastError
               (Text (error_message error ''Failed to export PDF. Please try again.''))))))
       (\<lambda>s. s\<lparr>isExporting := None\<rparr>)"

definition exportToPDF :: "Product list \<Rightarrow> string \<Rightarrow> reports_state \<Rightarrow> reports_state step" where
  "exportToPDF products now s =
     (if isExporting s \<noteq> None then Done Returned s
      else Await (ExportService_exportToPDF (export_data products now)) (s\<lparr>isExporting := Some pdf\<rparr>)
             exportToPDF_settled)"

definition exportToExcel_settled :: "outcome \<Rightarrow> reports_state block" where
  "exportToExcel_settled out =
     try_catch_finally
       (then_do (await out) (eff (emit (ToastSuccess (Text ''Excel report exported successfully!'')))))
       (\<lambda>error.
          then_do (eff (emit (ConsoleError ''Error exporting Excel:'' error)))
            (eff (emit (ToastError
               (Text (error_message error ''Failed to export Excel. Please try again.''))))))
       (\<lambda>s. s\<lparr>isExporting := None\<rparr>)"

definition exportToExcel :: "Product list \<Rightarrow> string \<Rightarrow> reports_state \<Rightarrow> reports_state step" where
  "exportToExcel products now s =
     (if isExporting s \<noteq> None then Done Returned s
      else Await (ExportService_exportToExcel (export_data products now)) (s\<lparr>isExporting := Some excel\<rparr>)
             exportToExcel_settled)"



subsection \<open>AddProduct: text to number\<close>

text \<open>
  A text is held as the bytes of its UTF-8 encoding: an ASCII character is one \<open>char\<close>, any
  other character two, three or four; a lone byte above \<open>0x7F\<close> is not a text.

  \<^verbatim>\<open>parseInt(string)\<close> without a radix and \<^verbatim>\<open>parseFloat(string)\<close>: leading white space is
  skipped, a sign is read, then the longest prefix that is a numeral; the result is \<open>NaN\<close>
  when that prefix is empty. \<^verbatim>\<open>parseInt\<close> reads hexadecimal digits after \<^verbatim>\<open>0x\<close>. The value
  of the numeral is rounded to the nearest double, also when it has more than 20
  significant digits, where the language leaves an engine the choice between the two
  neighbouring doubles.

  The white space skipped is every \<^verbatim>\<open>StrWhiteSpaceChar\<close> of the language:
  \<^item> one byte: TAB, LF, VT, FF, CR and SPACE;
  \<^item> two bytes: U+00A0 NO-BREAK SPACE (\<open>C2 A0\<close>);
  \<^item> three bytes: U+1680 (\<open>E1 9A 80\<close>), U+2000 to U+200A (\<open>E2 80 80\<close> to \<open>E2 80 8A\<close>),
    the line and paragraph separators U+2028 and U+2029 (\<open>E2 80 A8\<close>, \<open>E2 80 A9\<close>),
    U+202F (\<open>E2 80 AF\<close>), U+205F (\<open>E2 81 9F\<close>), U+3000 (\<open>E3 80 80\<close>) and the byte order
    mark U+FEFF (\<open>EF BB BF\<close>).
\<close>

definition is_white_space :: "char \<Rightarrow> bool" where
  "is_white_space c =
     (c = CHR 0x09 \<or> c = CHR 0x0A \<or> c = CHR 0x0B \<or> c = CHR 0x0C \<or> c = CHR 0x0D \<or> c = CHR 0x20)"

definition is_white_space2 :: "char \<Rightarrow> char \<Rightarrow> bool" where
  "is_white_space2 a b = (a = CHR 0xC2 \<and> b = CHR 0xA0)"

definition is_white_space3 :: "char \<Rightarrow> char \<Rightarrow> char \<Rightarrow> bool" where
  "is_white_space3 a b c =
     (a = CHR 0xE1 \<and> b = CHR 0x9A \<and> c = CHR 0x80
      \<or> a = CHR 0xE2 \<and> b = CHR 0x80
          \<and> c \<in> set [CHR 0x80, CHR 0x81, CHR 0x82, CHR 0x83, CHR 0x84, CHR 0x85, CHR 0x86,
                     CHR 0x87, CHR 0x88, CHR 0x89, CHR 0x8A, CHR 0xA8, CHR 0xA9, CHR 0xAF]
      \<or> a = CHR 0xE2 \<and> b = CHR 0x81 \<and> c = CHR 0x9F
      \<or> a = CHR 0xE3 \<and> b = CHR 0x80 \<and> c = CHR 0x80
      \<or> a = CHR 0xEF \<and> b = CHR 0xBB \<and> c = CHR 0xBF)"

text \<open>\<^verbatim>\<open>TrimString(string, start)\<close>: the text without its leading white space.\<close>

fun trim_start :: "string \<Rightarrow> string" where
  "trim_start (a # b # c # s) =
     (if is_white_space a then trim_start (b # c # s)
      else if is_white_space2 a b then trim_start (c # s)
      else if is_white_space3 a b c then trim_start s
      else a # b # c # s)"
| "trim_start [a, b] =
     (if is_white_space a then trim_start [b]
      else if is_white_space2 a b then []
      else [a, b])"
| "trim_start [a] = (if is_white_space a then [] else [a])"
| "trim_start [] = []"

definition digit_of :: "char \<Rightarrow> nat option" where
  "digit_of c =
     (let n = of_char c :: nat
      in if 48 \<le> n \<and> n \<le> 57 then Some (n - 48)
         else if 97 \<le> n \<and> n \<le> 122 then Some (n - 87)
         else if 65 \<le> n \<and> n \<le> 90 then Some (n - 55)
         else None)"

definition is_digit_in :: "nat \<Rightarrow> char \<Rightarrow> bool" where
  "is_digit_in R c = (case digit_of c of Some d \<Rightarrow> d < R | None \<Rightarrow> False)"

definition digits_value :: "nat \<Rightarrow> string \<Rightarrow> nat" where
  "digits_value R Z =
     foldl (\<lambda>acc c. case digit_of c of Some d \<Rightarrow> acc * R + d | None \<Rightarrow> acc * R) 0 Z"

fun strip_sign :: "string \<Rightarrow> bool \<times> string" where
  "strip_sign [] = (False, [])"
| "strip_sign (c # cs) =
     (if c = CHR ''-'' then (True, cs) else if c = CHR ''+'' then (False, cs) else (False, c # cs))"

definition signed :: "bool \<Rightarrow> rat \<Rightarrow> rat" where
  "signed neg x = (if neg then - x else x)"

text \<open>The integer literal at the start of a string: its sign, its radix and its digits.\<close>

definition int_literal :: "string \<Rightarrow> bool \<times> nat \<times> string" where
  "int_literal string =
     (let (neg, S) = strip_sign (trim_start string);
          hex = (take 2 S = ''0x'' \<or> take 2 S = ''0X'');
          R = (if hex then 16 else 10)
      in (neg, R, takeWhile (is_digit_in R) (if hex then drop 2 S else S)))"

definition parseInt :: "string \<Rightarrow> number" where
  "parseInt string =
     (case int_literal string of
        (neg, R, Z) \<Rightarrow> if Z = [] then NaN else fl (signed neg (of_nat (digits_value R Z))))"

text \<open>The exponent \<^verbatim>\<open>e[+-]digits\<close> after a decimal literal; one without digits is not part of
  the literal.\<close>

definition exponent_part :: "string \<Rightarrow> int" where
  "exponent_part S =
     (case S of
        [] \<Rightarrow> 0
      | c # cs \<Rightarrow>
          if c = CHR ''e'' \<or> c = CHR ''E''
          then (let (neg, ds) = strip_sign cs;
                    Z = takeWhile (is_digit_in 10) ds
                in if Z = [] then 0
                   else if neg then - int (digits_value 10 Z) else int (digits_value 10 Z))
          else 0)"

text \<open>The decimal literal at the start of a string: \<^verbatim>\<open>Infinity\<close>, or digits with an optional
  fraction and exponent, where the digits before or after the point may be missing but not
  both.\<close>

datatype float_literal =
    NoLiteral
  | InfinityLiteral bool
  | DecimalLiteral bool string string int

definition float_literal :: "string \<Rightarrow> float_literal" where
  "float_literal string =
     (let (neg, S) = strip_sign (trim_start string)
      in if take 8 S = ''Infinity'' then InfinityLiteral neg
         else
           (let ds1 = takeWhile (is_digit_in 10) S;
                r1 = dropWhile (is_digit_in 10) S;
                point = (case r1 of [] \<Rightarrow> False | c # _ \<Rightarrow> c = CHR ''.'');
                ds2 = (if point then takeWhile (is_digit_in 10) (tl r1) else []);
                r2 = (if point then dropWhile (is_digit_in 10) (tl r1) else r1)
            in if ds1 = [] \<and> ds2 = [] then NoLiteral
               else DecimalLiteral neg ds1 ds2 (exponent_part r2)))"

definition parseFloat :: "string \<Rightarrow> number" where
  "parseFloat string =
     (case float_literal string of
        NoLiteral \<Rightarrow> NaN
      | InfinityLiteral neg \<Rightarrow> (if neg then NegInfinity else Infinity)
      | DecimalLiteral neg ds1 ds2 ex \<Rightarrow>
          fl (signed neg (of_nat (digits_value 10 (ds1 @ ds2)) * 10 powi (ex - int (length ds2)))))"


subsection \<open>AddProduct: the form\<close>

record formData =
  name_text :: string
  sku_text :: string
  quantity_text :: string
  price_text :: string
  reorderLevel_text :: string

record add_product_state = view +
  formData :: formData
  loading :: bool

definition empty_form :: formData where
  "empty_form =
     \<lparr>name_text = [], sku_text = [], quantity_text = [], price_text = [],
      reorderLevel_text = []\<rparr>"

text \<open>\<^verbatim>\<open>handleInputChange\<close>: the input named \<open>field\<close> reports the text \<open>v\<close>.\<close>

datatype field = name_input | sku_input | quantity_input | price_input | reorderLevel_input

fun set_field :: "field \<Rightarrow> string \<Rightarrow> formData \<Rightarrow> formData" where
  "set_field name_input v f = f\<lparr>name_text := v\<rparr>"
| "set_field sku_input v f = f\<lparr>sku_text := v\<rparr>"
| "set_field quantity_input v f = f\<lparr>quantity_text := v\<rparr>"
| "set_field price_input v f = f\<lparr>price_text := v\<rparr>"
| "set_field reorderLevel_input v f = f\<lparr>reorderLevel_text := v\<rparr>"

definition handleInputChange :: "field \<Rightarrow> string \<Rightarrow> add_product_state \<Rightarrow> add_product_state" where
  "handleInputChange field v s = s\<lparr>formData := set_field field v (formData s)\<rparr>"

text \<open>The object \<^verbatim>\<open>handleSubmit\<close> builds from the form.\<close>

definition product_of_form :: "formData \<Rightarrow> ProductDraft" where
  "product_of_form f =
     \<lparr>name = name_text f,
      sku = sku_text f,
      quantity = parseInt (quantity_text f),
      price = parseFloat (price_text f),
      reorderLevel = parseInt (reorderLevel_text f)\<rparr>"

definition handleSubmit_settled :: "outcome \<Rightarrow> add_product_state block" where
  "handleSubmit_settled out =
     try_catch_finally
       (then_do (await out)
          (then_do (eff (\<lambda>s. s\<lparr>formData := empty_form\<rparr>))
             (eff (emit (ToastSuccess (Text ''Product added successfully!''))))))
       (\<lambda>error. eff (emit (ToastError (Text ''Failed to add product. Please try again.''))))
       (\<lambda>s. s\<lparr>loading := False\<rparr>)"

definition handleSubmit :: "add_product_state \<Rightarrow> add_product_state step" where
  "handleSubmit s =
     Await (onAddProduct (product_of_form (formData s))) (s\<lparr>loading := True\<rparr>) handleSubmit_settled"



section \<open>Rounding: exponent, certificates, exact cases\<close>

lemma pow2_less_imp: "(2::rat) powi m < 2 powi n \<Longrightarrow> m < n"
proof (rule ccontr)
  assume a: "(2::rat) powi m < 2 powi n" and "\<not> m < n"
  then have "n \<le> m" by simp
  then have "(2::rat) powi n \<le> 2 powi m" by (intro power_int_increasing) auto
  with a show False by simp
qed

lemma expo_ge1:
  assumes "1 \<le> \<bar>x\<bar>"
  shows "2 powi expo x \<le> \<bar>x\<bar> \<and> \<bar>x\<bar> < 2 powi (expo x + 1)"
proof -
  let ?n = "\<lfloor>\<bar>x\<bar>\<rfloor>"
  have n: "0 < ?n" using assms by simp
  have b: "1 \<le> bitlen ?n" using n bitlen_eq_zero_iff [of ?n] bitlen_nonneg [of ?n] by linarith
  have e: "expo x = bitlen ?n - 1" using assms by (simp add: expo_def)
  from bitlen_bounds [OF n] have lo: "2 ^ nat (bitlen ?n - 1) \<le> ?n" and hi: "?n < 2 ^ nat (bitlen ?n)"
    by simp_all
  have "(2::rat) powi expo x = of_int (2 ^ nat (bitlen ?n - 1))"
    using b by (simp add: e power_int_def)
  also have "\<dots> \<le> of_int ?n" using lo by (simp only: of_int_le_iff)
  also have "\<dots> \<le> \<bar>x\<bar>" by simp
  finally have 1: "2 powi expo x \<le> \<bar>x\<bar>" .
  have "?n + 1 \<le> 2 ^ nat (bitlen ?n)" using hi by simp
  then have "(of_int (?n + 1) :: rat) \<le> of_int (2 ^ nat (bitlen ?n))" by (simp only: of_int_le_iff)
  moreover have "\<bar>x\<bar> < of_int (?n + 1)" by simp linarith
  moreover have "(2::rat) powi (expo x + 1) = of_int (2 ^ nat (bitlen ?n))"
    using b by (simp add: e power_int_def)
  ultimately have 2: "\<bar>x\<bar> < 2 powi (expo x + 1)" by simp
  from 1 2 show ?thesis by simp
qed

lemma expo_lt1:
  assumes "x \<noteq> 0" "\<bar>x\<bar> < 1"
  shows "2 powi expo x \<le> \<bar>x\<bar> \<and> \<bar>x\<bar> < 2 powi (expo x + 1)"
proof -
  let ?b = "1 / \<bar>x\<bar>"
  let ?M = "\<lceil>?b\<rceil> - 1"
  have xpos: "0 < \<bar>x\<bar>" using assms by simp
  have b1: "1 < ?b" using assms xpos by (simp add: field_simps)
  have M: "0 < ?M" using b1 by (simp add: less_ceiling_iff)
  have Mlt: "of_int ?M < ?b" by (simp add: ceiling_correct)
  have bM: "?b \<le> of_int ?M + 1" using le_of_int_ceiling [of ?b] by simp
  let ?k = "bitlen ?M"
  have k: "1 \<le> ?k" using M bitlen_eq_zero_iff [of ?M] bitlen_nonneg [of ?M] by linarith
  have e: "expo x = - ?k" using assms by (simp add: expo_def)
  from bitlen_bounds [OF M] have lo: "2 ^ nat (?k - 1) \<le> ?M" and hi: "?M < 2 ^ nat ?k"
    by simp_all
  have "(of_int (2 ^ nat (?k - 1)) :: rat) \<le> of_int ?M" using lo by (simp only: of_int_le_iff)
  with Mlt have lo': "(2::rat) ^ nat (?k - 1) < ?b" by simp
  have "?M + 1 \<le> 2 ^ nat ?k" using hi by simp
  then have "(of_int (?M + 1) :: rat) \<le> of_int (2 ^ nat ?k)" by (simp only: of_int_le_iff)
  then have "of_int ?M + 1 \<le> (2::rat) ^ nat ?k" by simp
  with bM have hi': "?b \<le> (2::rat) ^ nat ?k" by (rule order_trans)
  have p1: "(2::rat) powi expo x = 1 / 2 ^ nat ?k"
    using k by (simp add: e power_int_def field_simps)
  have p2: "(2::rat) powi (expo x + 1) = 1 / 2 ^ nat (?k - 1)"
    using k by (simp add: e power_int_def field_simps)
  have 1: "1 / 2 ^ nat ?k \<le> \<bar>x\<bar>" using hi' xpos by (simp add: field_simps)
  have 2: "\<bar>x\<bar> < 1 / 2 ^ nat (?k - 1)" using lo' xpos by (simp add: field_simps)
  from 1 2 p1 p2 show ?thesis by simp
qed

lemma expo_bounds:
  assumes "x \<noteq> 0"
  shows "2 powi expo x \<le> \<bar>x\<bar>" and "\<bar>x\<bar> < 2 powi (expo x + 1)"
  using expo_ge1 [of x] expo_lt1 [of x] assms by (cases "1 \<le> \<bar>x\<bar>"; simp)+

lemma expo_unique:
  assumes "2 powi k \<le> \<bar>x\<bar>" and "\<bar>x\<bar> < 2 powi (k + 1)"
  shows "expo x = k"
proof -
  have "(0::rat) < 2 powi k" by simp
  with assms(1) have "0 < \<bar>x\<bar>" by linarith
  then have nz: "x \<noteq> 0" by simp
  from expo_bounds [OF nz] assms have "(2::rat) powi expo x < 2 powi (k + 1)"
    and "(2::rat) powi k < 2 powi (expo x + 1)" by linarith+
  then have "expo x < k + 1" and "k < expo x + 1" by (auto dest: pow2_less_imp)
  then show ?thesis by simp
qed

lemma round_half_even_near:
  assumes "\<bar>y - of_int m\<bar> < 1 / 2"
  shows "round_half_even y = m"
proof (cases "of_int m \<le> y")
  case True
  then have "\<lfloor>y\<rfloor> = m" using assms by (intro floor_unique) (auto simp: abs_if split: if_splits)
  then show ?thesis using assms True by (simp add: round_half_even_def Let_def)
next
  case False
  then have f: "\<lfloor>y\<rfloor> = m - 1" using assms by (intro floor_unique) (auto simp: abs_if split: if_splits)
  have "1 / 2 < y - of_int (m - 1)" using assms False by (auto simp: abs_if split: if_splits)
  then show ?thesis using f by (simp add: round_half_even_def Let_def)
qed

lemma round_half_even_of_int [simp]: "round_half_even (of_int m) = m"
  by (rule round_half_even_near) simp

lemma ulp_pos [simp]: "0 < ulp x"
  by (simp add: ulp_def)

text \<open>A value on the binary64 grid of its own exponent is not changed by rounding.\<close>

lemma fl_exact:
  assumes "x / ulp x = of_int m" and "\<bar>x\<bar> < 2 ^ 1024"
  shows "fl x = Fin x"
proof -
  have "of_int m * ulp x = x"
    using assms(1) ulp_pos [of x] by (simp add: field_simps)
  then have "of_int (round_half_even (x / ulp x)) * ulp x = x"
    by (simp add: assms(1))
  moreover have "\<not> 2 ^ 1024 \<le> x" and "\<not> x \<le> - (2 ^ 1024)"
    using assms(2) by (auto simp: abs_if split: if_splits)
  ultimately show ?thesis by (simp add: fl_def Let_def)
qed

lemma fl_0 [simp]: "fl 0 = Fin 0"
  by (rule fl_exact [where m = 0]) simp_all

lemma round_half_even_tie:
  assumes "y = of_int m + 1 / 2"
  shows "round_half_even y = (if even m then m else m + 1)"
proof -
  have "\<lfloor>y\<rfloor> = m" using assms by (intro floor_unique) auto
  then show ?thesis using assms by (simp add: round_half_even_def Let_def)
qed

lemma round_half_even_bounds: "\<bar>of_int (round_half_even y) - y\<bar> \<le> 1 / 2"
proof -
  define r where "r = \<lfloor>y\<rfloor>"
  define d where "d = y - of_int r"
  have d: "0 \<le> d" "d < 1" unfolding d_def r_def by linarith+
  have "round_half_even y =
      (if d < 1 / 2 then r else if 1 / 2 < d then r + 1 else if even r then r else r + 1)"
    by (simp add: round_half_even_def Let_def r_def d_def)
  moreover have "y = of_int r + d" by (simp add: d_def)
  ultimately show ?thesis using d by (simp add: abs_if)
qed

text \<open>A certificate for a rounded value in the normal range: the exponent \<open>k\<close> and the
  integer significand \<open>m\<close> that the scaled argument rounds to.\<close>

lemma fl_round:
  assumes lo: "2 powi k \<le> \<bar>x\<bar>" and hi: "\<bar>x\<bar> < 2 powi (k + 1)"
    and k: "- 1022 \<le> k" "k \<le> 1022"
    and r: "round_half_even (x / 2 powi (k - 52)) = m"
  shows "fl x = Fin (of_int m * 2 powi (k - 52))"
proof -
  let ?u = "(2::rat) powi (k - 52)"
  have u: "ulp x = ?u" using expo_unique [OF lo hi] k by (simp add: ulp_def max_def)
  have upos: "0 < ?u" by simp
  have m: "\<bar>of_int m - x / ?u\<bar> \<le> 1 / 2" using round_half_even_bounds [of "x / ?u"] r by simp
  have "\<bar>x / ?u\<bar> = \<bar>x\<bar> / ?u" using upos by (simp only: abs_divide abs_of_pos)
  also have "\<dots> < 2 powi (k + 1) / ?u" using hi upos by (simp add: divide_strict_right_mono)
  also have "\<dots> = 2 powi (k + 1 - (k - 52))" by (rule power_int_diff [symmetric]) simp
  also have "\<dots> = 2 ^ 53" by simp
  finally have "\<bar>x / ?u\<bar> < 2 ^ 53" .
  with m have "\<bar>(of_int m :: rat)\<bar> < 2 ^ 53 + 1" by linarith
  then have "(of_int \<bar>m\<bar> :: rat) < of_int (2 ^ 53 + 1)" by simp
  then have "\<bar>m\<bar> < 2 ^ 53 + 1" by (simp only: of_int_less_iff)
  then have "\<bar>m\<bar> \<le> 2 ^ 53" by simp
  then have "(of_int \<bar>m\<bar> :: rat) \<le> of_int (2 ^ 53)" by (simp only: of_int_le_iff)
  then have mb: "\<bar>(of_int m :: rat)\<bar> \<le> 2 ^ 53" by simp
  have "(2::rat) powi (53 + (k - 52)) = 2 powi 53 * ?u" by (rule power_int_add) simp
  moreover have "53 + (k - 52) = k + 1" by simp
  ultimately have e: "2 ^ 53 * ?u = 2 powi (k + 1)" by simp
  have "\<bar>of_int m * ?u\<bar> = \<bar>of_int m\<bar> * ?u" by (simp add: abs_mult)
  also have "\<dots> \<le> 2 ^ 53 * ?u" using mb upos by (simp add: mult_right_mono)
  also have "\<dots> = 2 powi (k + 1)" by (rule e)
  also have "\<dots> \<le> 2 powi 1023" using k by (intro power_int_increasing) auto
  also have "\<dots> < 2 ^ 1024" by simp
  finally have "\<bar>of_int m * ?u\<bar> < 2 ^ 1024" .
  then have "\<not> 2 ^ 1024 \<le> of_int m * ?u" and "\<not> of_int m * ?u \<le> - (2 ^ 1024)"
    by (auto simp: abs_if split: if_splits)
  then show ?thesis by (simp add: fl_def Let_def u r)
qed

lemma fl_cert:
  assumes "2 powi k \<le> \<bar>x\<bar>" and "\<bar>x\<bar> < 2 powi (k + 1)"
    and "- 1022 \<le> k" "k \<le> 1022"
    and "\<bar>x / 2 powi (k - 52) - of_int m\<bar> < 1 / 2"
  shows "fl x = Fin (of_int m * 2 powi (k - 52))"
  using assms(1-4) round_half_even_near [OF assms(5)] by (rule fl_round)

lemma fl_cert_tie:
  assumes "2 powi k \<le> \<bar>x\<bar>" and "\<bar>x\<bar> < 2 powi (k + 1)"
    and "- 1022 \<le> k" "k \<le> 1022"
    and "x / 2 powi (k - 52) = of_int m + 1 / 2"
  shows "fl x = Fin (of_int (if even m then m else m + 1) * 2 powi (k - 52))"
  using assms(1-4) round_half_even_tie [OF assms(5)] by (rule fl_round)

text \<open>Integers below \<open>2 ^ 53\<close> in magnitude, and their quotients by a power of two, are
  binary64 values.\<close>

lemma fl_dyadic:
  assumes n: "\<bar>n\<bar> < 2 ^ 53" and j: "j \<le> 1074"
  shows "fl (of_int n / 2 ^ j) = Fin (of_int n / 2 ^ j)"
proof (cases "n = 0")
  case True
  then show ?thesis by simp
next
  case False
  let ?x = "of_int n / 2 ^ j :: rat"
  have nz: "?x \<noteq> 0" using False by simp
  have "(of_int \<bar>n\<bar> :: rat) < of_int (2 ^ 53)" using n by (simp only: of_int_less_iff)
  then have nb: "\<bar>of_int n :: rat\<bar> < 2 ^ 53" by simp
  have "2 powi expo ?x \<le> \<bar>?x\<bar>" using expo_bounds(1) [OF nz] .
  also have "\<bar>?x\<bar> = \<bar>of_int n\<bar> / 2 ^ j" by simp
  also have "\<dots> < 2 ^ 53 / 2 ^ j" using nb by (simp add: divide_strict_right_mono)
  also have "\<dots> = 2 powi (53 - int j)" by (simp add: power_int_diff)
  finally have "expo ?x < 53 - int j" by (rule pow2_less_imp)
  then have d: "0 \<le> 52 - max (expo ?x) (- 1022) - int j" using j by simp
  define d where "d = nat (52 - max (expo ?x) (- 1022) - int j)"
  have "(2::rat) ^ j = 2 powi (int j)" by simp
  then have "?x / ulp ?x = of_int n * (2 powi (- int j) * 2 powi (- (max (expo ?x) (- 1022) - 52)))"
    by (simp only: ulp_def power_int_minus divide_inverse mult.assoc)
  also have "2 powi (- int j) * 2 powi (- (max (expo ?x) (- 1022) - 52))
       = (2::rat) powi (- int j + - (max (expo ?x) (- 1022) - 52))"
    by (rule power_int_add [symmetric]) simp
  also have "- int j + - (max (expo ?x) (- 1022) - 52) = int d"
    unfolding d_def using d by simp
  also have "of_int n * (2::rat) powi (int d) = of_int (n * 2 ^ d)" by simp
  finally have ex: "?x / ulp ?x = of_int (n * 2 ^ d)" .
  have "\<bar>?x\<bar> \<le> \<bar>of_int n\<bar>" by (simp add: field_simps mult_le_cancel_left1)
  also have "\<dots> < 2 ^ 53" by (rule nb)
  also have "(2::rat) ^ 53 \<le> 2 ^ 1024" by (intro power_increasing) auto
  finally have "\<bar>?x\<bar> < 2 ^ 1024" .
  with ex show ?thesis by (rule fl_exact)
qed

lemma fl_of_int: "\<bar>n\<bar> < 2 ^ 53 \<Longrightarrow> fl (of_int n) = Fin (of_int n)"
  using fl_dyadic [of n 0] by simp

lemma fl_of_nat: "n < 2 ^ 53 \<Longrightarrow> fl (of_nat n) = Fin (of_nat n)"
  using fl_of_int [of "int n"] by simp

lemma fl_half_of_nat: "n < 2 ^ 53 \<Longrightarrow> fl (of_nat n / 2) = Fin (of_nat n / 2)"
  using fl_dyadic [of "int n" 1] by simp

section \<open>The stock status\<close>

lemma threshold_exact:
  assumes "3 * r < 2 ^ 53"
  shows "num_mul (Fin (of_nat r)) (Fin (3 / 2)) = Fin (of_nat (3 * r) / 2)"
  using fl_half_of_nat [OF assms] by (simp add: algebra_simps)

text \<open>
  Claim C1. For non-negative integers \<open>q\<close> (quantity) and \<open>r\<close> (reorder level) the status is
  one of the three tiers, chosen by the first test that succeeds: Low Stock when
  \<open>q \<le> r\<close>, otherwise Medium when \<open>q \<le> r * 1.5\<close>, otherwise Good; the inline badge of the
  Reports table shows the same text. The product \<open>r * 1.5\<close> is the number the program
  computes; while \<open>3 * r\<close> is below \<open>2 ^ 53\<close> it is exactly three halves of \<open>r\<close>. With
  reorder level 0 the quantity 0 is Low Stock and every positive quantity is Good, and a
  quantity equal to the reorder level is Low Stock.
\<close>

theorem getProductStatus_first_match:
  "getProductStatus (stocked p q r) \<in> {''Low Stock'', ''Medium'', ''Good''}
   \<and> getProductStatus (stocked p q r) =
       (if q \<le> r then ''Low Stock''
        else if num_le (Fin (of_nat q)) (num_mul (Fin (of_nat r)) (Fin (3 / 2))) then ''Medium''
        else ''Good'')
   \<and> badge_label (reports_status_badge (stocked p q r)) = getProductStatus (stocked p q r)
   \<and> (3 * r < 2 ^ 53 \<longrightarrow>
        num_le (Fin (of_nat q)) (num_mul (Fin (of_nat r)) (Fin (3 / 2))) = (2 * q \<le> 3 * r))
   \<and> getProductStatus (stocked p 0 0) = ''Low Stock''
   \<and> (0 < q \<longrightarrow> getProductStatus (stocked p q 0) = ''Good'')
   \<and> getProductStatus (stocked p r r) = ''Low Stock''"
proof -
  have ex: "num_le (Fin (of_nat q)) (num_mul (Fin (of_nat r)) (Fin (3 / 2))) = (2 * q \<le> 3 * r)"
    if "3 * r < 2 ^ 53"
  proof -
    have "(of_nat q \<le> (of_nat (3 * r) / 2 :: rat)) = ((of_nat (2 * q) :: rat) \<le> of_nat (3 * r))"
      by (simp add: field_simps)
    also have "\<dots> = (2 * q \<le> 3 * r)" by (simp only: of_nat_le_iff)
    finally show ?thesis using threshold_exact [OF that] by simp
  qed
  show ?thesis
    using ex by (simp add: getProductStatus_def reports_status_badge_def stocked_def)
qed

theorem getProductStatus_first_match_witness:
  "3 * (10::nat) < 2 ^ 53 \<and> (0::nat) < 14
   \<and> getProductStatus (stocked \<lparr>name = ''Rice'', sku = ''R-1'', quantity = Fin 0, price = Fin 2,
        reorderLevel = Fin 0, id_product = ''p1''\<rparr> 14 10) = ''Medium''
   \<and> getProductStatus (stocked \<lparr>name = ''Rice'', sku = ''R-1'', quantity = Fin 0, price = Fin 2,
        reorderLevel = Fin 0, id_product = ''p1''\<rparr> 14 0) = ''Good''"
  using getProductStatus_first_match [of "\<lparr>name = ''Rice'', sku = ''R-1'', quantity = Fin 0,
        price = Fin 2, reorderLevel = Fin 0, id_product = ''p1''\<rparr>" 14 10]
    getProductStatus_first_match [of "\<lparr>name = ''Rice'', sku = ''R-1'', quantity = Fin 0,
        price = Fin 2, reorderLevel = Fin 0, id_product = ''p1''\<rparr>" 14 0]
  by simp

text \<open>
  Claim C9, as the program has it. The Dashboard table does not show the three tiers: its
  badge reads Low Stock exactly when the status is Low Stock and reads OK for both other
  tiers, Medium and Good. The Reports table shows the three tiers.
\<close>

theorem dashboard_badge_two_tiers:
  "(badge_label (dashboard_status_badge p) = ''Low Stock'') = (getProductStatus p = ''Low Stock'')
   \<and> (badge_label (dashboard_status_badge p) = ''OK'') =
       (getProductStatus p = ''Medium'' \<or> getProductStatus p = ''Good'')
   \<and> badge_label (reports_status_badge p) = getProductStatus p"
  by (simp add: dashboard_status_badge_def getProductStatus_def reports_status_badge_def)

text \<open>
  Claim C9 as stated fails on the Medium and Good tiers.
  A product with quantity 14 and reorder level 10 is Medium in the Reports table and OK
  in the Dashboard table; with quantity 16 it is Good in the one and OK in the other.
\<close>

theorem dashboard_badge_counterexample:
  "badge_label (dashboard_status_badge
      \<lparr>name = ''Rice'', sku = ''R-1'', quantity = Fin 14, price = Fin 2, reorderLevel = Fin 10,
        id_product = ''p1''\<rparr>) = ''OK''
   \<and> getProductStatus
      \<lparr>name = ''Rice'', sku = ''R-1'', quantity = Fin 14, price = Fin 2, reorderLevel = Fin 10,
        id_product = ''p1''\<rparr> = ''Medium''
   \<and> badge_label (reports_status_badge
      \<lparr>name = ''Rice'', sku = ''R-1'', quantity = Fin 14, price = Fin 2, reorderLevel = Fin 10,
        id_product = ''p1''\<rparr>) = ''Medium''
   \<and> badge_label (dashboard_status_badge
      \<lparr>name = ''Rice'', sku = ''R-1'', quantity = Fin 16, price = Fin 2, reorderLevel = Fin 10,
        id_product = ''p1''\<rparr>) = ''OK''
   \<and> getProductStatus
      \<lparr>name = ''Rice'', sku = ''R-1'', quantity = Fin 16, price = Fin 2, reorderLevel = Fin 10,
        id_product = ''p1''\<rparr> = ''Good''"
proof -
  have "num_mul (Fin 10) (Fin (3 / 2)) = Fin 15"
    using fl_of_int [of 15] by simp
  then show ?thesis
    by (simp add: dashboard_status_badge_def getProductStatus_def reports_status_badge_def)
qed


section \<open>Summary metrics\<close>

lemma fl_numeral: "numeral w < (2::nat) ^ 53 \<Longrightarrow> fl (numeral w) = Fin (numeral w)"
  using fl_of_nat [of "numeral w"] by simp

lemma lowStock_iff: "(getProductStatus p = ''Low Stock'') = num_le (quantity p) (reorderLevel p)"
  by (simp add: getProductStatus_def)

lemma stockHealth_lengths:
  "stockHealth ps =
     Math_round (num_mul (num_div (num_sub (of_length (totalProducts ps)) (of_length (lowStockItems ps)))
       (of_length (totalProducts ps))) (Fin 100))"
  by (simp add: stockHealth_def totalProducts_def lowStockItems_def lowStockProducts_def)

lemma sub_lengths:
  assumes "l \<le> n" and "n < 2 ^ 32"
  shows "num_sub (of_length n) (of_length l) = Fin (of_nat (n - l))"
proof -
  have "(2::nat) ^ 32 \<le> 2 ^ 53" by (intro power_increasing) auto
  with assms have "n - l < 2 ^ 53" by linarith
  then have f: "fl (of_nat (n - l)) = Fin (of_nat (n - l))" by (rule fl_of_nat)
  have e: "(of_nat n :: rat) + - of_nat l = of_nat (n - l)"
    by (simp only: of_nat_diff [OF assms(1)] diff_conv_add_uminus)
  have "num_sub (of_length n) (of_length l) = fl (of_nat n + - of_nat l)"
    by (simp only: num_sub_def of_length_def num_neg.simps num_add.simps)
  then show ?thesis by (simp only: e f)
qed

text \<open>
  Claim C2, as the program has it. The number of products is the length of the list; the
  total value starts at 0 and adds, product by product from the left, the double product
  of quantity and price; the low-stock count is the number of products whose status is
  Low Stock; the four cards are shown exactly when the list is not empty, and on the empty
  list the counts are 0 and the total value is 0. The stock health is
  \<^verbatim>\<open>Math.round\<close> of the quotient (total - low) / total, rounded to a double, times 100:
  the division comes first.
\<close>

theorem summary_metrics:
  "totalProducts products = length products
   \<and> totalValue [] = Fin 0
   \<and> totalValue (products @ [p]) = num_add (totalValue products) (num_mul (quantity p) (price p))
   \<and> lowStockItems products = length (filter (\<lambda>p. getProductStatus p = ''Low Stock'') products)
   \<and> length (lowStockProducts products) = lowStockItems products
   \<and> (length products < 2 ^ 32 \<longrightarrow>
        stockHealth products =
          Math_round (num_mul
            (num_div (Fin (of_nat (length products - lowStockItems products)))
               (Fin (of_nat (length products))))
            (Fin 100)))
   \<and> (reports_summary products = None) = (products = [])
   \<and> (products \<noteq> [] \<longrightarrow>
        reports_summary products =
          Some \<lparr>card_total_products = totalProducts products,
                card_total_value = totalValue products,
                card_low_stock_items = lowStockItems products,
                card_stock_health = stockHealth products\<rparr>)
   \<and> totalProducts [] = 0 \<and> lowStockItems [] = 0"
proof -
  have h: "stockHealth products =
          Math_round (num_mul
            (num_div (Fin (of_nat (length products - lowStockItems products)))
               (Fin (of_nat (length products))))
            (Fin 100))" if "length products < 2 ^ 32"
  proof -
    have "lowStockItems products \<le> length products" by (simp add: lowStockItems_def)
    from sub_lengths [OF this that] show ?thesis
      by (simp add: stockHealth_lengths totalProducts_def of_length_def)
  qed
  show ?thesis
    using h
    by (simp add: totalProducts_def totalValue_def lowStockItems_def lowStockProducts_def
        lowStock_iff reports_summary_def)
qed

lemma health_1_of_2:
  "Math_round (num_mul (num_div (Fin 1) (Fin 2)) (Fin 100)) = Fin 50"
proof -
  have "fl (1 / 2) = Fin (1 / 2)" using fl_dyadic [of 1 1] by simp
  moreover have "fl 50 = Fin 50" using fl_of_int [of 50] by simp
  moreover have "\<lfloor>(50::rat) + 1 / 2\<rfloor> = 50" by (rule floor_unique) simp_all
  ultimately show ?thesis by simp
qed

theorem summary_metrics_witness:
  "length [\<lparr>name = ''Rice'', sku = ''R-1'', quantity = Fin 5, price = Fin 2, reorderLevel = Fin 10,
             id_product = ''p1''\<rparr>,
           \<lparr>name = ''Beans'', sku = ''B-1'', quantity = Fin 50, price = Fin 3, reorderLevel = Fin 10,
             id_product = ''p2''\<rparr>] < 2 ^ 32
   \<and> [\<lparr>name = ''Rice'', sku = ''R-1'', quantity = Fin 5, price = Fin 2, reorderLevel = Fin 10,
             id_product = ''p1''\<rparr>,
           \<lparr>name = ''Beans'', sku = ''B-1'', quantity = Fin 50, price = Fin 3, reorderLevel = Fin 10,
             id_product = ''p2''\<rparr>] \<noteq> []
   \<and> stockHealth [\<lparr>name = ''Rice'', sku = ''R-1'', quantity = Fin 5, price = Fin 2, reorderLevel = Fin 10,
             id_product = ''p1''\<rparr>,
           \<lparr>name = ''Beans'', sku = ''B-1'', quantity = Fin 50, price = Fin 3, reorderLevel = Fin 10,
             id_product = ''p2''\<rparr>] = Fin 50
   \<and> lowStockItems [\<lparr>name = ''Rice'', sku = ''R-1'', quantity = Fin 5, price = Fin 2, reorderLevel = Fin 10,
             id_product = ''p1''\<rparr>,
           \<lparr>name = ''Beans'', sku = ''B-1'', quantity = Fin 50, price = Fin 3, reorderLevel = Fin 10,
             id_product = ''p2''\<rparr>] = 1
   \<and> reports_summary [\<lparr>name = ''Rice'', sku = ''R-1'', quantity = Fin 5, price = Fin 2, reorderLevel = Fin 10,
             id_product = ''p1''\<rparr>,
           \<lparr>name = ''Beans'', sku = ''B-1'', quantity = Fin 50, price = Fin 3, reorderLevel = Fin 10,
             id_product = ''p2''\<rparr>] \<noteq> None"
proof -
  let ?ps = "[\<lparr>name = ''Rice'', sku = ''R-1'', quantity = Fin 5, price = Fin 2, reorderLevel = Fin 10,
             id_product = ''p1''\<rparr>,
           \<lparr>name = ''Beans'', sku = ''B-1'', quantity = Fin 50, price = Fin 3, reorderLevel = Fin 10,
             id_product = ''p2''\<rparr>]"
  have 1: "length ?ps < 2 ^ 32" by simp
  have 2: "?ps \<noteq> []" by simp
  have 3: "lowStockItems ?ps = 1" by (simp add: lowStockItems_def)
  from summary_metrics [of ?ps] 1 2
  have "stockHealth ?ps =
          Math_round (num_mul
            (num_div (Fin (of_nat (length ?ps - lowStockItems ?ps))) (Fin (of_nat (length ?ps))))
            (Fin 100))"
    and "reports_summary ?ps \<noteq> None" by blast+
  with 1 2 3 health_1_of_2 show ?thesis by simp
qed


subsection \<open>Forty products, seventeen of them low\<close>

lemma sub_40_17: "num_sub (of_length 40) (of_length 17) = Fin 23"
  by (simp add: num_sub_def of_length_def fl_numeral)

lemma div_23_40: "num_div (Fin 23) (of_length 40) = Fin (2589569785738035 / 4503599627370496)"
  using fl_cert [of "- 1" "23 / 40" 5179139571476070]
  by (simp add: of_length_def power_int_minus)

lemma mul_575_100:
  "num_mul (Fin (2589569785738035 / 4503599627370496)) (Fin 100) =
     Fin (8092405580431359 / 140737488355328)"
  using fl_cert [of 5 "64739244643450875 / 1125899906842624" 8092405580431359]
  by (simp add: power_int_minus)

lemma round_57: "Math_round (Fin (8092405580431359 / 140737488355328)) = Fin 57"
proof -
  have "\<lfloor>(8092405580431359::rat) / 140737488355328 + 1 / 2\<rfloor> = 57"
    by (rule floor_unique) simp_all
  then show ?thesis by simp
qed

lemma mul_100_23: "num_mul (Fin 100) (Fin 23) = Fin 2300"
  by (simp add: fl_numeral)

lemma div_2300_40: "num_div (Fin 2300) (of_length 40) = Fin (115 / 2)"
  using fl_dyadic [of 115 1] by (simp add: of_length_def)

lemma round_58: "Math_round (Fin (115 / 2)) = Fin 58"
proof -
  have "\<lfloor>(115::rat) / 2 + 1 / 2\<rfloor> = 58"
    by (rule floor_unique) simp_all
  then show ?thesis by simp
qed

text \<open>
  Claim C2 as stated fails on the stock health.
  With 40 products of which 17 are low, 23 / 40 is rounded to a double just below 0.575,
  its product with 100 to 57.49999999999999, and the card shows 57. The formula
  \<open>round(100 * (40 - 17) / 40)\<close> is 58, in exact arithmetic and in double arithmetic
  alike.
\<close>

theorem stockHealth_40_17:
  "length (replicate 17 \<lparr>name = ''Rice'', sku = ''R-1'', quantity = Fin 5, price = Fin 2,
       reorderLevel = Fin 10, id_product = ''low''\<rparr>
     @ replicate 23 \<lparr>name = ''Beans'', sku = ''B-1'', quantity = Fin 50, price = Fin 3,
       reorderLevel = Fin 10, id_product = ''ok''\<rparr>) = 40
   \<and> length (lowStockProducts
      (replicate 17 \<lparr>name = ''Rice'', sku = ''R-1'', quantity = Fin 5, price = Fin 2,
         reorderLevel = Fin 10, id_product = ''low''\<rparr>
       @ replicate 23 \<lparr>name = ''Beans'', sku = ''B-1'', quantity = Fin 50, price = Fin 3,
         reorderLevel = Fin 10, id_product = ''ok''\<rparr>)) = 17
   \<and> stockHealth
      (replicate 17 \<lparr>name = ''Rice'', sku = ''R-1'', quantity = Fin 5, price = Fin 2,
         reorderLevel = Fin 10, id_product = ''low''\<rparr>
       @ replicate 23 \<lparr>name = ''Beans'', sku = ''B-1'', quantity = Fin 50, price = Fin 3,
         reorderLevel = Fin 10, id_product = ''ok''\<rparr>) = Fin 57
   \<and> spec_stockHealthPercent 40 17 = Fin 58
   \<and> \<lfloor>(100 * (40 - 17) / 40 :: rat) + 1 / 2\<rfloor> = 58"
proof -
  let ?ps = "replicate 17 \<lparr>name = ''Rice'', sku = ''R-1'', quantity = Fin 5, price = Fin 2,
         reorderLevel = Fin 10, id_product = ''low''\<rparr>
       @ replicate 23 \<lparr>name = ''Beans'', sku = ''B-1'', quantity = Fin 50, price = Fin 3,
         reorderLevel = Fin 10, id_product = ''ok''\<rparr>"
  have n: "length ?ps = 40" by simp
  have l: "length (lowStockProducts ?ps) = 17" by (simp add: lowStockProducts_def)
  have h: "stockHealth ?ps = Fin 57"
    unfolding stockHealth_def n l sub_40_17 div_23_40 mul_575_100 round_57 ..
  have s: "spec_stockHealthPercent 40 17 = Fin 58"
    unfolding spec_stockHealthPercent_def sub_40_17 mul_100_23 div_2300_40 round_58 ..
  have e: "\<lfloor>(100 * (40 - 17) / 40 :: rat) + 1 / 2\<rfloor> = 58"
    by (rule floor_unique) simp_all
  from n l h s e show ?thesis by blast
qed


subsection \<open>Reordering the products\<close>

lemma whole_step:
  assumes "a + u * c < 2 ^ 53"
  shows "num_add (Fin (of_nat a)) (num_mul (Fin (of_nat u)) (Fin (of_nat c))) = Fin (of_nat (a + u * c))"
proof -
  have "u * c < 2 ^ 53" using assms by simp
  then have "fl (of_nat (u * c)) = Fin (of_nat (u * c))" by (rule fl_of_nat)
  moreover have "fl (of_nat (a + u * c)) = Fin (of_nat (a + u * c))" using assms by (rule fl_of_nat)
  ultimately show ?thesis by simp
qed

lemma foldl_whole:
  assumes "\<forall>p\<in>set ps. quantity p = Fin (of_nat (units p)) \<and> price p = Fin (of_nat (cost p))"
    and "a + (\<Sum>p\<leftarrow>ps. units p * cost p) < 2 ^ 53"
  shows "foldl (\<lambda>sum p. num_add sum (num_mul (quantity p) (price p))) (Fin (of_nat a)) ps =
           Fin (of_nat (a + (\<Sum>p\<leftarrow>ps. units p * cost p)))"
  using assms
proof (induction ps arbitrary: a)
  case Nil
  then show ?case by simp
next
  case (Cons p ps)
  have b: "a + units p * cost p < 2 ^ 53" using Cons.prems(2) by simp
  have "foldl (\<lambda>sum p. num_add sum (num_mul (quantity p) (price p))) (Fin (of_nat a)) (p # ps) =
        foldl (\<lambda>sum p. num_add sum (num_mul (quantity p) (price p)))
          (Fin (of_nat (a + units p * cost p))) ps"
    using Cons.prems(1) whole_step [OF b] by simp
  also have "\<dots> = Fin (of_nat (a + units p * cost p + (\<Sum>p\<leftarrow>ps. units p * cost p)))"
    using Cons.prems by (intro Cons.IH) (simp_all add: add.assoc)
  finally show ?case by (simp add: add.assoc)
qed

lemma totalValue_whole:
  assumes "\<forall>p\<in>set ps. quantity p = Fin (of_nat (units p)) \<and> price p = Fin (of_nat (cost p))"
    and "(\<Sum>p\<leftarrow>ps. units p * cost p) < 2 ^ 53"
  shows "totalValue ps = Fin (of_nat (\<Sum>p\<leftarrow>ps. units p * cost p))"
  using foldl_whole [of ps units cost 0] assms by (simp add: totalValue_def)

lemma counts_mset:
  assumes "mset ps' = mset ps"
  shows "totalProducts ps' = totalProducts ps" and "lowStockItems ps' = lowStockItems ps"
proof -
  show "totalProducts ps' = totalProducts ps"
    using assms mset_eq_length [of ps' ps] by (simp add: totalProducts_def)
  have "mset (filter (\<lambda>p. num_le (quantity p) (reorderLevel p)) ps') =
        mset (filter (\<lambda>p. num_le (quantity p) (reorderLevel p)) ps)"
    using assms by simp
  then show "lowStockItems ps' = lowStockItems ps"
    unfolding lowStockItems_def by (rule mset_eq_length)
qed

text \<open>
  Claim C10, as the program has it. A reordering of the products leaves the number of
  products, the low-stock count and the stock health unchanged, and the summary cards are
  shown for the one list exactly when they are for the other. The total value is a sum of
  doubles taken from the left: it is unchanged when every quantity and price is a
  non-negative integer and the exact total is below \<open>2 ^ 53\<close>, and is then that
  total.
\<close>

theorem aggregate_reordering:
  assumes "mset products' = mset products"
  shows "totalProducts products' = totalProducts products
       \<and> lowStockItems products' = lowStockItems products
       \<and> length (lowStockProducts products') = length (lowStockProducts products)
       \<and> stockHealth products' = stockHealth products
       \<and> (reports_summary products' = None) = (reports_summary products = None)
       \<and> ((\<forall>p\<in>set products. quantity p = Fin (of_nat (units p)) \<and> price p = Fin (of_nat (cost p)))
            \<and> (\<Sum>p\<leftarrow>products. units p * cost p) < 2 ^ 53 \<longrightarrow>
          totalValue products = Fin (of_nat (\<Sum>p\<leftarrow>products. units p * cost p))
          \<and> totalValue products' = totalValue products)"
proof -
  note c = counts_mset [OF assms]
  have l: "length products' = length products" using c(1) by (simp add: totalProducts_def)
  have h: "stockHealth products' = stockHealth products"
    by (simp only: stockHealth_lengths c)
  have s: "(reports_summary products' = None) = (reports_summary products = None)"
    by (simp add: reports_summary_def l)
  have t: "totalValue products = Fin (of_nat (\<Sum>p\<leftarrow>products. units p * cost p))
          \<and> totalValue products' = totalValue products"
    if w: "\<forall>p\<in>set products. quantity p = Fin (of_nat (units p)) \<and> price p = Fin (of_nat (cost p))"
      and b: "(\<Sum>p\<leftarrow>products. units p * cost p) < 2 ^ 53"
  proof -
    have "mset (map (\<lambda>p. units p * cost p) products') = mset (map (\<lambda>p. units p * cost p) products)"
      using assms by simp
    then have e: "(\<Sum>p\<leftarrow>products'. units p * cost p) = (\<Sum>p\<leftarrow>products. units p * cost p)"
      by (metis sum_mset_sum_list)
    have "set products' = set products" using assms by (rule mset_eq_setD)
    with w have w': "\<forall>p\<in>set products'. quantity p = Fin (of_nat (units p)) \<and> price p = Fin (of_nat (cost p))"
      by simp
    from totalValue_whole [OF w b] totalValue_whole [OF w'] b e show ?thesis by simp
  qed
  from c l h s t show ?thesis by (simp add: lowStockItems_def lowStockProducts_def)
qed

theorem aggregate_reordering_witness:
  "mset [\<lparr>name = ''Beans'', sku = ''B-1'', quantity = Fin 2, price = Fin 100, reorderLevel = Fin 10,
           id_product = ''p2''\<rparr>,
         \<lparr>name = ''Rice'', sku = ''R-1'', quantity = Fin 3, price = Fin 250, reorderLevel = Fin 10,
           id_product = ''p1''\<rparr>]
   = mset [\<lparr>name = ''Rice'', sku = ''R-1'', quantity = Fin 3, price = Fin 250, reorderLevel = Fin 10,
           id_product = ''p1''\<rparr>,
         \<lparr>name = ''Beans'', sku = ''B-1'', quantity = Fin 2, price = Fin 100, reorderLevel = Fin 10,
           id_product = ''p2''\<rparr>]
   \<and> totalValue [\<lparr>name = ''Rice'', sku = ''R-1'', quantity = Fin 3, price = Fin 250, reorderLevel = Fin 10,
           id_product = ''p1''\<rparr>,
         \<lparr>name = ''Beans'', sku = ''B-1'', quantity = Fin 2, price = Fin 100, reorderLevel = Fin 10,
           id_product = ''p2''\<rparr>] = Fin 950
   \<and> totalValue [\<lparr>name = ''Beans'', sku = ''B-1'', quantity = Fin 2, price = Fin 100, reorderLevel = Fin 10,
           id_product = ''p2''\<rparr>,
         \<lparr>name = ''Rice'', sku = ''R-1'', quantity = Fin 3, price = Fin 250, reorderLevel = Fin 10,
           id_product = ''p1''\<rparr>] = Fin 950"
proof -
  let ?a = "\<lparr>name = ''Rice'', sku = ''R-1'', quantity = Fin 3, price = Fin 250, reorderLevel = Fin 10,
           id_product = ''p1''\<rparr>"
  let ?b = "\<lparr>name = ''Beans'', sku = ''B-1'', quantity = Fin 2, price = Fin 100, reorderLevel = Fin 10,
           id_product = ''p2''\<rparr>"
  let ?units = "\<lambda>p. if id_product p = ''p1'' then 3 else (2::nat)"
  let ?cost = "\<lambda>p. if id_product p = ''p1'' then 250 else (100::nat)"
  have m: "mset [?b, ?a] = mset [?a, ?b]" by simp
  have w: "\<forall>p\<in>set [?a, ?b]. quantity p = Fin (of_nat (?units p)) \<and> price p = Fin (of_nat (?cost p))"
    by simp
  have b: "(\<Sum>p\<leftarrow>[?a, ?b]. ?units p * ?cost p) < 2 ^ 53" by simp
  from aggregate_reordering [OF m, of ?units ?cost] w b
  have "totalValue [?a, ?b] = Fin (of_nat (\<Sum>p\<leftarrow>[?a, ?b]. ?units p * ?cost p))"
    and "totalValue [?b, ?a] = totalValue [?a, ?b]" by blast+
  with m show ?thesis by simp
qed


subsection \<open>Prices 0.1, 0.2 and 0.3\<close>

lemma parse_01: "parseFloat ''0.1'' = Fin (3602879701896397 / 36028797018963968)"
  using fl_cert [of "- 4" "1 / 10" 7205759403792794]
  by (simp add: parseFloat_def float_literal_def is_white_space_def is_white_space2_def is_white_space3_def is_digit_in_def digit_of_def
      digits_value_def signed_def exponent_part_def power_int_minus)

lemma parse_02: "parseFloat ''0.2'' = Fin (3602879701896397 / 18014398509481984)"
  using fl_cert [of "- 3" "1 / 5" 7205759403792794]
  by (simp add: parseFloat_def float_literal_def is_white_space_def is_white_space2_def is_white_space3_def is_digit_in_def digit_of_def
      digits_value_def signed_def exponent_part_def power_int_minus)

lemma parse_03: "parseFloat ''0.3'' = Fin (5404319552844595 / 18014398509481984)"
  using fl_cert [of "- 2" "3 / 10" 5404319552844595]
  by (simp add: parseFloat_def float_literal_def is_white_space_def is_white_space2_def is_white_space3_def is_digit_in_def digit_of_def
      digits_value_def signed_def exponent_part_def power_int_minus)

lemma fl_01: "fl (3602879701896397 / 36028797018963968) = Fin (3602879701896397 / 36028797018963968)"
  using fl_dyadic [of 3602879701896397 55] by simp

lemma fl_02: "fl (3602879701896397 / 18014398509481984) = Fin (3602879701896397 / 18014398509481984)"
  using fl_dyadic [of 3602879701896397 54] by simp

lemma fl_03: "fl (5404319552844595 / 18014398509481984) = Fin (5404319552844595 / 18014398509481984)"
  using fl_dyadic [of 5404319552844595 54] by simp

lemma add_01_02:
  "fl (10808639105689191 / 36028797018963968) =
     Fin (1351079888211149 / 4503599627370496)"
  using fl_cert_tie [of "- 2" "10808639105689191 / 36028797018963968" 5404319552844595]
  by (simp add: power_int_minus)

lemma add_03_03:
  "fl (10808639105689191 / 18014398509481984) =
     Fin (1351079888211149 / 2251799813685248)"
  using fl_cert_tie [of "- 1" "10808639105689191 / 18014398509481984" 5404319552844595]
  by (simp add: power_int_minus)

lemma add_03_02:
  "fl (1 / 2) = Fin (1 / 2)"
  using fl_dyadic [of 1 1] by simp

lemma add_05_01:
  "fl (21617278211378381 / 36028797018963968) = Fin (5404319552844595 / 9007199254740992)"
  using fl_cert [of "- 1" "21617278211378381 / 36028797018963968" 5404319552844595]
  by (simp add: power_int_minus)

text \<open>
  Claim C10 as stated fails on the total value.
  Three products of quantity 1 whose prices are the doubles of the texts 0.1, 0.2 and
  0.3: in this order their total value is 0.6000000000000001, in the reverse order it
  is 0.6.
\<close>

theorem totalValue_order_counterexample:
  "mset [\<lparr>name = ''C'', sku = ''C-1'', quantity = Fin 1, price = parseFloat ''0.3'',
           reorderLevel = Fin 0, id_product = ''c''\<rparr>,
         \<lparr>name = ''B'', sku = ''B-1'', quantity = Fin 1, price = parseFloat ''0.2'',
           reorderLevel = Fin 0, id_product = ''b''\<rparr>,
         \<lparr>name = ''A'', sku = ''A-1'', quantity = Fin 1, price = parseFloat ''0.1'',
           reorderLevel = Fin 0, id_product = ''a''\<rparr>]
   = mset [\<lparr>name = ''A'', sku = ''A-1'', quantity = Fin 1, price = parseFloat ''0.1'',
           reorderLevel = Fin 0, id_product = ''a''\<rparr>,
         \<lparr>name = ''B'', sku = ''B-1'', quantity = Fin 1, price = parseFloat ''0.2'',
           reorderLevel = Fin 0, id_product = ''b''\<rparr>,
         \<lparr>name = ''C'', sku = ''C-1'', quantity = Fin 1, price = parseFloat ''0.3'',
           reorderLevel = Fin 0, id_product = ''c''\<rparr>]
   \<and> totalValue
        [\<lparr>name = ''A'', sku = ''A-1'', quantity = Fin 1, price = parseFloat ''0.1'',
           reorderLevel = Fin 0, id_product = ''a''\<rparr>,
         \<lparr>name = ''B'', sku = ''B-1'', quantity = Fin 1, price = parseFloat ''0.2'',
           reorderLevel = Fin 0, id_product = ''b''\<rparr>,
         \<lparr>name = ''C'', sku = ''C-1'', quantity = Fin 1, price = parseFloat ''0.3'',
           reorderLevel = Fin 0, id_product = ''c''\<rparr>]
       = Fin (1351079888211149 / 2251799813685248)
   \<and> totalValue
        [\<lparr>name = ''C'', sku = ''C-1'', quantity = Fin 1, price = parseFloat ''0.3'',
           reorderLevel = Fin 0, id_product = ''c''\<rparr>,
         \<lparr>name = ''B'', sku = ''B-1'', quantity = Fin 1, price = parseFloat ''0.2'',
           reorderLevel = Fin 0, id_product = ''b''\<rparr>,
         \<lparr>name = ''A'', sku = ''A-1'', quantity = Fin 1, price = parseFloat ''0.1'',
           reorderLevel = Fin 0, id_product = ''a''\<rparr>]
       = Fin (5404319552844595 / 9007199254740992)
   \<and> Fin (1351079888211149 / 2251799813685248) \<noteq> Fin (5404319552844595 / 9007199254740992)"
  by (simp add: totalValue_def parse_01 parse_02 parse_03 fl_01 fl_02 fl_03
      add_01_02 add_03_03 add_03_02 add_05_01)


section \<open>Restock and sell\<close>

lemma find_by_id:
  assumes "product \<in> set products" and "distinct (map id_product products)"
  shows "find (\<lambda>p. id_product p = id_product product) products = Some product"
  using assms
proof (induction products)
  case Nil
  then show ?case by simp
next
  case (Cons a products)
  show ?case
  proof (cases "a = product")
    case True
    then show ?thesis by simp
  next
    case False
    with Cons.prems have m: "product \<in> set products" by simp
    then have "id_product product \<in> id_product ` set products" by (rule imageI)
    with Cons.prems(2) have "id_product a \<noteq> id_product product" by auto
    with Cons.IH [OF m] Cons.prems(2) show ?thesis by simp
  qed
qed

lemma num_mul_2_of_nat:
  assumes "2 * r < 2 ^ 53"
  shows "num_mul (Fin (of_nat r)) (Fin 2) = Fin (of_nat (2 * r))"
  using fl_of_nat [OF assms] by (simp add: mult.commute)

lemma restock_amount_of_nat:
  assumes "2 * r < 2 ^ 53"
  shows "Math_max (Fin 10) (num_mul (Fin (of_nat r)) (Fin 2)) = Fin (of_nat (max 10 (2 * r)))"
proof -
  have "((10::rat) \<le> of_nat (2 * r)) = ((of_nat 10 :: rat) \<le> of_nat (2 * r))" by simp
  also have "\<dots> = (10 \<le> 2 * r)" by (simp only: of_nat_le_iff)
  finally show ?thesis
    unfolding num_mul_2_of_nat [OF assms] by (simp add: Math_max_def max_def)
qed

text \<open>
  Claim C3. For a product of the list, identifiers being unique, \<^verbatim>\<open>handleRestock\<close> calls
  \<^verbatim>\<open>onUpdateStock\<close> with the product's identifier and the amount
  \<^verbatim>\<open>Math.max(10, reorderLevel * 2)\<close>, whatever the quantity; for an integer reorder level
  \<open>r\<close> that amount is the larger of 10 and \<open>2 * r\<close>.
\<close>

theorem handleRestock_delta:
  assumes "product \<in> set products" and "distinct (map id_product products)"
  shows "issued (handleRestock products (id_product product) s) =
           Some (onUpdateStock (id_product product)
                   (Math_max (Fin 10) (num_mul (reorderLevel product) (Fin 2))))
       \<and> (\<forall>r. reorderLevel product = Fin (of_nat r) \<and> 2 * r < 2 ^ 53 \<longrightarrow>
             issued (handleRestock products (id_product product) s) =
               Some (onUpdateStock (id_product product) (Fin (of_nat (max 10 (2 * r))))))"
  using find_by_id [OF assms] restock_amount_of_nat
  by (simp add: handleRestock_def Let_def)

theorem handleRestock_delta_witness:
  "\<lparr>name = ''Rice'', sku = ''R-1'', quantity = Fin 3, price = Fin 2, reorderLevel = Fin 10,
     id_product = ''p1''\<rparr> \<in> set [\<lparr>name = ''Rice'', sku = ''R-1'', quantity = Fin 3, price = Fin 2,
     reorderLevel = Fin 10, id_product = ''p1''\<rparr>]
   \<and> distinct (map id_product [\<lparr>name = ''Rice'', sku = ''R-1'', quantity = Fin 3, price = Fin 2,
     reorderLevel = Fin 10, id_product = ''p1''\<rparr>])
   \<and> issued (handleRestock [\<lparr>name = ''Rice'', sku = ''R-1'', quantity = Fin 3, price = Fin 2,
     reorderLevel = Fin 10, id_product = ''p1''\<rparr>] ''p1'' \<lparr>emitted = [], processingId = None\<rparr>)
     = Some (onUpdateStock ''p1'' (Fin 20))"
proof -
  let ?p = "\<lparr>name = ''Rice'', sku = ''R-1'', quantity = Fin 3, price = Fin 2, reorderLevel = Fin 10,
     id_product = ''p1''\<rparr>"
  have 1: "?p \<in> set [?p]" by simp
  have 2: "distinct (map id_product [?p])" by simp
  have 3: "reorderLevel ?p = Fin (of_nat 10) \<and> 2 * (10::nat) < 2 ^ 53" by simp
  from handleRestock_delta [OF 1 2, of "\<lparr>emitted = [], processingId = None\<rparr>"] 3
  have "issued (handleRestock [?p] (id_product ?p) \<lparr>emitted = [], processingId = None\<rparr>)
     = Some (onUpdateStock (id_product ?p) (Fin (of_nat (max 10 (2 * 10)))))" by blast
  then show ?thesis by simp
qed

text \<open>
  Claim C4. For a product of the list, identifiers being unique, \<^verbatim>\<open>handleSell\<close> calls
  \<^verbatim>\<open>onUpdateStock\<close> with the amount -1 when the quantity is positive; when the quantity
  is 0 it makes no call and leaves the state alone, and the Sell button is disabled.
\<close>

theorem handleSell_delta:
  assumes "product \<in> set products" and "distinct (map id_product products)"
  shows "(num_gt (quantity product) (Fin 0) \<longrightarrow>
            issued (handleSell products (id_product product) s) =
              Some (onUpdateStock (id_product product) (Fin (- 1))))
       \<and> (quantity product = Fin 0 \<longrightarrow>
            handleSell products (id_product product) s = Done Returned s
            \<and> sell_button_disabled product)"
  using find_by_id [OF assms]
  by (simp add: handleSell_def sell_button_disabled_def)

theorem handleSell_delta_witness:
  "\<lparr>name = ''Rice'', sku = ''R-1'', quantity = Fin 1, price = Fin 2, reorderLevel = Fin 10,
     id_product = ''p1''\<rparr> \<in> set [\<lparr>name = ''Rice'', sku = ''R-1'', quantity = Fin 1, price = Fin 2,
       reorderLevel = Fin 10, id_product = ''p1''\<rparr>,
     \<lparr>name = ''Beans'', sku = ''B-1'', quantity = Fin 0, price = Fin 3, reorderLevel = Fin 5,
       id_product = ''p2''\<rparr>]
   \<and> \<lparr>name = ''Beans'', sku = ''B-1'', quantity = Fin 0, price = Fin 3, reorderLevel = Fin 5,
       id_product = ''p2''\<rparr> \<in> set [\<lparr>name = ''Rice'', sku = ''R-1'', quantity = Fin 1, price = Fin 2,
       reorderLevel = Fin 10, id_product = ''p1''\<rparr>,
     \<lparr>name = ''Beans'', sku = ''B-1'', quantity = Fin 0, price = Fin 3, reorderLevel = Fin 5,
       id_product = ''p2''\<rparr>]
   \<and> distinct (map id_product [\<lparr>name = ''Rice'', sku = ''R-1'', quantity = Fin 1, price = Fin 2,
       reorderLevel = Fin 10, id_product = ''p1''\<rparr>,
     \<lparr>name = ''Beans'', sku = ''B-1'', quantity = Fin 0, price = Fin 3, reorderLevel = Fin 5,
       id_product = ''p2''\<rparr>])
   \<and> num_gt (Fin 1) (Fin 0)
   \<and> issued (handleSell [\<lparr>name = ''Rice'', sku = ''R-1'', quantity = Fin 1, price = Fin 2,
       reorderLevel = Fin 10, id_product = ''p1''\<rparr>,
     \<lparr>name = ''Beans'', sku = ''B-1'', quantity = Fin 0, price = Fin 3, reorderLevel = Fin 5,
       id_product = ''p2''\<rparr>] ''p1'' \<lparr>emitted = [], processingId = None\<rparr>)
     = Some (onUpdateStock ''p1'' (Fin (- 1)))
   \<and> handleSell [\<lparr>name = ''Rice'', sku = ''R-1'', quantity = Fin 1, price = Fin 2,
       reorderLevel = Fin 10, id_product = ''p1''\<rparr>,
     \<lparr>name = ''Beans'', sku = ''B-1'', quantity = Fin 0, price = Fin 3, reorderLevel = Fin 5,
       id_product = ''p2''\<rparr>] ''p2'' \<lparr>emitted = [], processingId = None\<rparr>
     = Done Returned \<lparr>emitted = [], processingId = None\<rparr>
   \<and> sell_button_disabled \<lparr>name = ''Beans'', sku = ''B-1'', quantity = Fin 0, price = Fin 3,
       reorderLevel = Fin 5, id_product = ''p2''\<rparr>"
proof -
  let ?a = "\<lparr>name = ''Rice'', sku = ''R-1'', quantity = Fin 1, price = Fin 2, reorderLevel = Fin 10,
     id_product = ''p1''\<rparr>"
  let ?b = "\<lparr>name = ''Beans'', sku = ''B-1'', quantity = Fin 0, price = Fin 3, reorderLevel = Fin 5,
       id_product = ''p2''\<rparr>"
  let ?s = "\<lparr>emitted = [], processingId = None\<rparr>"
  have a: "?a \<in> set [?a, ?b]" and b: "?b \<in> set [?a, ?b]" by simp_all
  have d: "distinct (map id_product [?a, ?b])" by simp
  from handleSell_delta [OF a d, of ?s] handleSell_delta [OF b d, of ?s] a b d
  show ?thesis by simp
qed

lemma export_guard:
  "isExporting s \<noteq> None \<Longrightarrow> exportToPDF products now s = Done Returned s"
  "isExporting s \<noteq> None \<Longrightarrow> exportToExcel products now s = Done Returned s"
  by (simp_all add: exportToPDF_def exportToExcel_def)





section \<open>Rejections and in-flight flags\<close>

lemma settled_restock:
  "handleRestock_settled amt Resolved s =
     (Returned, s\<lparr>emitted := emitted s @ [ToastSuccess (RestockedUnits amt)], processingId := None\<rparr>)"
  "handleRestock_settled amt (Rejected e) s =
     (Returned, s\<lparr>emitted := emitted s @ [ToastError (Text ''Failed to restock. Please try again.'')],
        processingId := None\<rparr>)"
  by (simp_all add: handleRestock_settled_def try_catch_finally_def then_do_def await_def eff_def
      emit_def)

lemma settled_sell:
  "handleSell_settled Resolved s =
     (Returned, s\<lparr>emitted := emitted s @ [ToastSuccess (Text ''Successfully sold 1 unit!'')],
        processingId := None\<rparr>)"
  "handleSell_settled (Rejected e) s =
     (Returned, s\<lparr>emitted := emitted s @ [ToastError (Text ''Failed to sell. Please try again.'')],
        processingId := None\<rparr>)"
  by (simp_all add: handleSell_settled_def try_catch_finally_def then_do_def await_def eff_def
      emit_def)

lemma settled_submit:
  "handleSubmit_settled Resolved s =
     (Returned, s\<lparr>emitted := emitted s @ [ToastSuccess (Text ''Product added successfully!'')],
        formData := empty_form, loading := False\<rparr>)"
  "handleSubmit_settled (Rejected e) s =
     (Returned, s\<lparr>emitted := emitted s @ [ToastError (Text ''Failed to add product. Please try again.'')],
        loading := False\<rparr>)"
  by (simp_all add: handleSubmit_settled_def try_catch_finally_def then_do_def await_def eff_def
      emit_def)

lemma settled_pdf:
  "exportToPDF_settled Resolved s =
     (Returned, s\<lparr>emitted := emitted s @ [ToastSuccess (Text ''PDF report exported successfully!'')],
        isExporting := None\<rparr>)"
  "exportToPDF_settled (Rejected e) s =
     (Returned, s\<lparr>emitted := emitted s @ [ConsoleError ''Error exporting PDF:'' e,
          ToastError (Text (error_message e ''Failed to export PDF. Please try again.''))],
        isExporting := None\<rparr>)"
  by (simp_all add: exportToPDF_settled_def try_catch_finally_def then_do_def await_def eff_def
      emit_def)

lemma settled_excel:
  "exportToExcel_settled Resolved s =
     (Returned, s\<lparr>emitted := emitted s @ [ToastSuccess (Text ''Excel report exported successfully!'')],
        isExporting := None\<rparr>)"
  "exportToExcel_settled (Rejected e) s =
     (Returned, s\<lparr>emitted := emitted s @ [ConsoleError ''Error exporting Excel:'' e,
          ToastError (Text (error_message e ''Failed to export Excel. Please try again.''))],
        isExporting := None\<rparr>)"
  by (simp_all add: exportToExcel_settled_def try_catch_finally_def then_do_def await_def eff_def
      emit_def)

lemma settled_returns:
  "fst (handleRestock_settled amt out s) = Returned"
  "fst (handleSell_settled out d) = Returned"
  "fst (handleSubmit_settled out a) = Returned"
  "fst (exportToPDF_settled out r) = Returned"
  "fst (exportToExcel_settled out r) = Returned"
  by (cases out; simp add: settled_restock settled_sell settled_submit settled_pdf settled_excel)+

lemma settled_clears:
  "processingId (snd (handleRestock_settled amt out s)) = None"
  "processingId (snd (handleSell_settled out d)) = None"
  "loading (snd (handleSubmit_settled out a)) = False"
  "isExporting (snd (exportToPDF_settled out r)) = None"
  "isExporting (snd (exportToExcel_settled out r)) = None"
  by (cases out; simp add: settled_restock settled_sell settled_submit settled_pdf settled_excel)+

text \<open>
  Claim C6. Whatever the outcome of the call and whatever the component state when it
  settles, each handler returns and does not throw; a handler that issued a call clears
  its flag (\<^verbatim>\<open>processingId\<close>, \<^verbatim>\<open>loading\<close>, \<^verbatim>\<open>isExporting\<close>); and on a rejection it emits one
  error notification, which the export handlers precede with a console line.
\<close>

theorem rejections_caught_flags_cleared:
  "fst (settle (handleRestock products productId d0) out d) = Returned
   \<and> fst (settle (handleSell products productId d0) out d) = Returned
   \<and> fst (settle (handleSubmit a0) out a) = Returned
   \<and> fst (settle (exportToPDF products now r0) out r) = Returned
   \<and> fst (settle (exportToExcel products now r0) out r) = Returned
   \<and> (issued (handleRestock products productId d0) \<noteq> None \<longrightarrow>
        processingId (snd (settle (handleRestock products productId d0) out d)) = None
        \<and> emitted (snd (settle (handleRestock products productId d0) (Rejected e) d)) =
            emitted d @ [ToastError (Text ''Failed to restock. Please try again.'')])
   \<and> (issued (handleSell products productId d0) \<noteq> None \<longrightarrow>
        processingId (snd (settle (handleSell products productId d0) out d)) = None
        \<and> emitted (snd (settle (handleSell products productId d0) (Rejected e) d)) =
            emitted d @ [ToastError (Text ''Failed to sell. Please try again.'')])
   \<and> loading (snd (settle (handleSubmit a0) out a)) = False
   \<and> emitted (snd (settle (handleSubmit a0) (Rejected e) a)) =
        emitted a @ [ToastError (Text ''Failed to add product. Please try again.'')]
   \<and> (issued (exportToPDF products now r0) \<noteq> None \<longrightarrow>
        isExporting (snd (settle (exportToPDF products now r0) out r)) = None
        \<and> emitted (snd (settle (exportToPDF products now r0) (Rejected e) r)) =
            emitted r @ [ConsoleError ''Error exporting PDF:'' e,
              ToastError (Text (error_message e ''Failed to export PDF. Please try again.''))])
   \<and> (issued (exportToExcel products now r0) \<noteq> None \<longrightarrow>
        isExporting (snd (settle (exportToExcel products now r0) out r)) = None
        \<and> emitted (snd (settle (exportToExcel products now r0) (Rejected e) r)) =
            emitted r @ [ConsoleError ''Error exporting Excel:'' e,
              ToastError (Text (error_message e ''Failed to export Excel. Please try again.''))])"
proof -
  have 1: "fst (settle (handleRestock products productId d0) out d) = Returned"
    by (simp add: handleRestock_def Let_def settled_returns split: option.split)
  have 2: "fst (settle (handleSell products productId d0) out d) = Returned"
    by (simp add: handleSell_def settled_returns split: option.split)
  have 3: "fst (settle (handleSubmit a0) out a) = Returned"
    by (simp add: handleSubmit_def settled_returns)
  have 4: "fst (settle (exportToPDF products now r0) out r) = Returned"
    by (simp add: exportToPDF_def settled_returns)
  have 5: "fst (settle (exportToExcel products now r0) out r) = Returned"
    by (simp add: exportToExcel_def settled_returns)
  have 6: "issued (handleRestock products productId d0) \<noteq> None \<longrightarrow>
        processingId (snd (settle (handleRestock products productId d0) out d)) = None
        \<and> emitted (snd (settle (handleRestock products productId d0) (Rejected e) d)) =
            emitted d @ [ToastError (Text ''Failed to restock. Please try again.'')]"
    by (simp add: handleRestock_def Let_def settled_clears settled_restock split: option.split)
  have 7: "issued (handleSell products productId d0) \<noteq> None \<longrightarrow>
        processingId (snd (settle (handleSell products productId d0) out d)) = None
        \<and> emitted (snd (settle (handleSell products productId d0) (Rejected e) d)) =
            emitted d @ [ToastError (Text ''Failed to sell. Please try again.'')]"
    by (simp add: handleSell_def settled_clears settled_sell split: option.split)
  have 8: "loading (snd (settle (handleSubmit a0) out a)) = False
     \<and> emitted (snd (settle (handleSubmit a0) (Rejected e) a)) =
        emitted a @ [ToastError (Text ''Failed to add product. Please try again.'')]"
    by (simp add: handleSubmit_def settled_clears settled_submit)
  have 9: "issued (exportToPDF products now r0) \<noteq> None \<longrightarrow>
        isExporting (snd (settle (exportToPDF products now r0) out r)) = None
        \<and> emitted (snd (settle (exportToPDF products now r0) (Rejected e) r)) =
            emitted r @ [ConsoleError ''Error exporting PDF:'' e,
              ToastError (Text (error_message e ''Failed to export PDF. Please try again.''))]"
    by (simp add: exportToPDF_def settled_clears settled_pdf)
  have 10: "issued (exportToExcel products now r0) \<noteq> None \<longrightarrow>
        isExporting (snd (settle (exportToExcel products now r0) out r)) = None
        \<and> emitted (snd (settle (exportToExcel products now r0) (Rejected e) r)) =
            emitted r @ [ConsoleError ''Error exporting Excel:'' e,
              ToastError (Text (error_message e ''Failed to export Excel. Please try again.''))]"
    by (simp add: exportToExcel_def settled_clears settled_excel)
  from 1 2 3 4 5 6 7 8 9 10 show ?thesis by blast
qed

theorem rejections_caught_flags_cleared_witness:
  "issued (handleRestock
      [\<lparr>name = ''Rice'', sku = ''R-1'', quantity = Fin 3, price = Fin 2, reorderLevel = Fin 10,
         id_product = ''p1''\<rparr>] ''p1'' \<lparr>emitted = [], processingId = None\<rparr>) \<noteq> None
   \<and> issued (handleSell
      [\<lparr>name = ''Rice'', sku = ''R-1'', quantity = Fin 3, price = Fin 2, reorderLevel = Fin 10,
         id_product = ''p1''\<rparr>] ''p1'' \<lparr>emitted = [], processingId = None\<rparr>) \<noteq> None
   \<and> issued (exportToPDF
      [\<lparr>name = ''Rice'', sku = ''R-1'', quantity = Fin 3, price = Fin 2, reorderLevel = Fin 10,
         id_product = ''p1''\<rparr>] ''today'' \<lparr>emitted = [], isExporting = None\<rparr>) \<noteq> None
   \<and> issued (exportToExcel
      [\<lparr>name = ''Rice'', sku = ''R-1'', quantity = Fin 3, price = Fin 2, reorderLevel = Fin 10,
         id_product = ''p1''\<rparr>] ''today'' \<lparr>emitted = [], isExporting = None\<rparr>) \<noteq> None
   \<and> settle (handleRestock
      [\<lparr>name = ''Rice'', sku = ''R-1'', quantity = Fin 3, price = Fin 2, reorderLevel = Fin 10,
         id_product = ''p1''\<rparr>] ''p1'' \<lparr>emitted = [], processingId = None\<rparr>)
      (Rejected (ErrorObject ''offline'')) \<lparr>emitted = [], processingId = Some ''p1''\<rparr>
     = (Returned, \<lparr>emitted = [ToastError (Text ''Failed to restock. Please try again.'')],
          processingId = None\<rparr>)
   \<and> settle (exportToPDF
      [\<lparr>name = ''Rice'', sku = ''R-1'', quantity = Fin 3, price = Fin 2, reorderLevel = Fin 10,
         id_product = ''p1''\<rparr>] ''today'' \<lparr>emitted = [], isExporting = None\<rparr>)
      (Rejected (ErrorObject ''offline'')) \<lparr>emitted = [], isExporting = Some pdf\<rparr>
     = (Returned, \<lparr>emitted = [ConsoleError ''Error exporting PDF:'' (ErrorObject ''offline''),
          ToastError (Text ''offline'')], isExporting = None\<rparr>)"
proof -
  let ?ps = "[\<lparr>name = ''Rice'', sku = ''R-1'', quantity = Fin 3, price = Fin 2, reorderLevel = Fin 10,
         id_product = ''p1''\<rparr>]"
  let ?dstart = "\<lparr>emitted = [], processingId = None\<rparr>"
  let ?dlater = "\<lparr>emitted = [], processingId = Some ''p1''\<rparr>"
  let ?rstart = "\<lparr>emitted = [], isExporting = None\<rparr>"
  let ?rlater = "\<lparr>emitted = [], isExporting = Some pdf\<rparr>"
  let ?out = "Rejected (ErrorObject ''offline'')"
  let ?form = "\<lparr>emitted = [], formData = empty_form, loading = True\<rparr>"
  have i1: "issued (handleRestock ?ps ''p1'' ?dstart) \<noteq> None"
    by (simp add: handleRestock_def Let_def)
  have i2: "issued (handleSell ?ps ''p1'' ?dstart) \<noteq> None"
    by (simp add: handleSell_def)
  have i3: "issued (exportToPDF ?ps ''today'' ?rstart) \<noteq> None"
    by (simp add: exportToPDF_def)
  have i4: "issued (exportToExcel ?ps ''today'' ?rstart) \<noteq> None"
    by (simp add: exportToExcel_def)
  note i = i1 i2 i3 i4
  from rejections_caught_flags_cleared [of ?ps "''p1''" ?dstart ?out ?dlater ?form ?form "''today''" ?rstart ?rlater
      "ErrorObject ''offline''"] i
  have a: "fst (settle (handleRestock ?ps ''p1'' ?dstart) ?out ?dlater) = Returned"
    and b: "processingId (snd (settle (handleRestock ?ps ''p1'' ?dstart) ?out ?dlater)) = None"
    and c: "emitted (snd (settle (handleRestock ?ps ''p1'' ?dstart) ?out ?dlater)) =
            emitted ?dlater @ [ToastError (Text ''Failed to restock. Please try again.'')]"
    and d: "fst (settle (exportToPDF ?ps ''today'' ?rstart) ?out ?rlater) = Returned"
    and e: "isExporting (snd (settle (exportToPDF ?ps ''today'' ?rstart) ?out ?rlater)) = None"
    and f: "emitted (snd (settle (exportToPDF ?ps ''today'' ?rstart) ?out ?rlater)) =
            emitted ?rlater @ [ConsoleError ''Error exporting PDF:'' (ErrorObject ''offline''),
              ToastError (Text (error_message (ErrorObject ''offline'')
                ''Failed to export PDF. Please try again.''))]"
    by blast+
  have "settle (handleRestock ?ps ''p1'' ?dstart) ?out ?dlater
     = (Returned, \<lparr>emitted = [ToastError (Text ''Failed to restock. Please try again.'')],
          processingId = None\<rparr>)"
    using a b c by (cases "settle (handleRestock ?ps ''p1'' ?dstart) ?out ?dlater") (simp add: dashboard_state.equality)
  moreover have "settle (exportToPDF ?ps ''today'' ?rstart) ?out ?rlater
     = (Returned, \<lparr>emitted = [ConsoleError ''Error exporting PDF:'' (ErrorObject ''offline''),
          ToastError (Text ''offline'')], isExporting = None\<rparr>)"
    using d e f by (cases "settle (exportToPDF ?ps ''today'' ?rstart) ?out ?rlater")
      (simp add: reports_state.equality error_message_def)
  ultimately show ?thesis using i by simp
qed

text \<open>
  Claim C7. Submitting leaves the form fields as they are. When \<^verbatim>\<open>onAddProduct\<close>
  rejects, the fields keep the values they have at that moment and the failure
  notification is emitted; when it resolves, every field becomes the empty string and
  the success notification is emitted.
\<close>

theorem handleSubmit_keeps_or_resets:
  "formData (suspended (handleSubmit s0)) = formData s0
   \<and> formData (snd (settle (handleSubmit s0) (Rejected e) s)) = formData s
   \<and> emitted (snd (settle (handleSubmit s0) (Rejected e) s)) =
        emitted s @ [ToastError (Text ''Failed to add product. Please try again.'')]
   \<and> formData (snd (settle (handleSubmit s0) Resolved s)) = empty_form
   \<and> emitted (snd (settle (handleSubmit s0) Resolved s)) =
        emitted s @ [ToastSuccess (Text ''Product added successfully!'')]
   \<and> name_text empty_form = [] \<and> sku_text empty_form = [] \<and> quantity_text empty_form = []
   \<and> price_text empty_form = [] \<and> reorderLevel_text empty_form = []"
  by (simp add: handleSubmit_def settled_submit empty_form_def)


section \<open>Form submission and non-numeric text\<close>

text \<open>White space outside ASCII is skipped like a blank: a no-break space, a tab followed by
  a line separator and a byte order mark, an ideographic space, an Ogham space mark, thin
  and mathematical spaces. The zero-width space U+200B (\<open>E2 80 8B\<close>) is no white space.\<close>

lemma parse_skips_white_space:
  "parseInt [CHR 0xC2, CHR 0xA0, CHR ''5''] = Fin 5
   \<and> parseInt [CHR 0x09, CHR 0xE2, CHR 0x80, CHR 0xA8, CHR 0xEF, CHR 0xBB, CHR 0xBF, CHR ''5''] = Fin 5
   \<and> parseFloat [CHR 0xE3, CHR 0x80, CHR 0x80, CHR 0xE1, CHR 0x9A, CHR 0x80, CHR 0x20, CHR ''5''] = Fin 5
   \<and> parseFloat [CHR 0xE2, CHR 0x80, CHR 0x8A, CHR 0xE2, CHR 0x81, CHR 0x9F, CHR 0xE2, CHR 0x80, CHR 0xAF,
        CHR ''5''] = Fin 5
   \<and> parseInt [CHR 0xE2, CHR 0x80, CHR 0x8B, CHR ''5''] = NaN"
  using fl_of_int [of 5]
  by (simp add: parseInt_def parseFloat_def int_literal_def float_literal_def is_white_space_def
      is_white_space2_def is_white_space3_def is_digit_in_def digit_of_def digits_value_def
      signed_def exponent_part_def)

text \<open>
  Claim C8, as the program has it. \<^verbatim>\<open>handleSubmit\<close> checks nothing: for every form state
  it calls \<^verbatim>\<open>onAddProduct\<close> with the results of \<^verbatim>\<open>parseInt\<close> and \<^verbatim>\<open>parseFloat\<close> on the
  texts. A text that is empty or white space only, and a text whose first character after
  the white space is a lowercase letter, is passed on as \<open>NaN\<close>.
\<close>

theorem handleSubmit_passes_parsed:
  "issued (handleSubmit s) =
     Some (onAddProduct
       \<lparr>name = name_text (formData s),
        sku = sku_text (formData s),
        quantity = parseInt (quantity_text (formData s)),
        price = parseFloat (price_text (formData s)),
        reorderLevel = parseInt (reorderLevel_text (formData s))\<rparr>)
   \<and> (trim_start t = [] \<longrightarrow> parseInt t = NaN \<and> parseFloat t = NaN)
   \<and> (trim_start t = c # r \<and> c \<in> set ''abcdefghijklmnopqrstuvwxyz'' \<longrightarrow>
        parseInt t = NaN \<and> parseFloat t = NaN)"
proof -
  have 1: "issued (handleSubmit s) =
     Some (onAddProduct
       \<lparr>name = name_text (formData s),
        sku = sku_text (formData s),
        quantity = parseInt (quantity_text (formData s)),
        price = parseFloat (price_text (formData s)),
        reorderLevel = parseInt (reorderLevel_text (formData s))\<rparr>)"
    by (simp add: handleSubmit_def product_of_form_def)
  have 2: "parseInt t = NaN \<and> parseFloat t = NaN" if "trim_start t = []"
    using that by (simp add: parseInt_def parseFloat_def int_literal_def float_literal_def)
  have 3: "parseInt t = NaN \<and> parseFloat t = NaN"
    if "trim_start t = c # r \<and> c \<in> set ''abcdefghijklmnopqrstuvwxyz''"
  proof -
    from that have t: "trim_start t = c # r" and c: "c \<in> set ''abcdefghijklmnopqrstuvwxyz''"
      by simp_all
    from c have d: "\<not> is_digit_in 10 c" "c \<noteq> CHR ''-''" "c \<noteq> CHR ''+''" "c \<noteq> CHR ''0''"
      "c \<noteq> CHR ''I''" "c \<noteq> CHR ''.''"
      by (auto simp: is_digit_in_def digit_of_def)
    have i: "parseInt t = NaN"
      using d by (cases r) (simp_all add: parseInt_def int_literal_def t)
    have f: "parseFloat t = NaN"
      using d by (simp add: parseFloat_def float_literal_def t)
    from i f show ?thesis ..
  qed
  from 1 2 3 show ?thesis by blast
qed

theorem handleSubmit_passes_parsed_witness:
  "trim_start ''  '' = []
   \<and> trim_start '' ten'' = CHR ''t'' # ''en''
   \<and> CHR ''t'' \<in> set ''abcdefghijklmnopqrstuvwxyz''
   \<and> parseInt ''  '' = NaN \<and> parseFloat ''  '' = NaN
   \<and> parseInt '' ten'' = NaN \<and> parseFloat '' ten'' = NaN"
proof -
  have a: "trim_start ''  '' = []" by (simp add: is_white_space_def)
  have b: "trim_start '' ten'' = CHR ''t'' # ''en''"
    by (simp add: is_white_space_def is_white_space2_def is_white_space3_def)
  have c: "CHR ''t'' \<in> set ''abcdefghijklmnopqrstuvwxyz''" by simp
  from handleSubmit_passes_parsed [of _ "''  ''"] a
  have 1: "parseInt ''  '' = NaN \<and> parseFloat ''  '' = NaN" by blast
  from handleSubmit_passes_parsed [of _ "'' ten''" "CHR ''t''" "''en''"] b c
  have 2: "parseInt '' ten'' = NaN \<and> parseFloat '' ten'' = NaN" by blast
  from a b c 1 2 show ?thesis by blast
qed

text \<open>
  Claim C8 as stated fails:
  with the quantity text abc, \<^verbatim>\<open>onAddProduct\<close> is called with the quantity \<open>NaN\<close>; so it is
  with the quantity text .0, which denotes the number 0.
\<close>

theorem handleSubmit_NaN_counterexample:
  "issued (handleSubmit \<lparr>emitted = [],
      formData = \<lparr>name_text = ''Rice'', sku_text = ''R-1'', quantity_text = ''abc'',
        price_text = ''2.5'', reorderLevel_text = ''10''\<rparr>,
      loading = False\<rparr>)
   = Some (onAddProduct \<lparr>name = ''Rice'', sku = ''R-1'', quantity = NaN, price = Fin (5 / 2),
       reorderLevel = Fin 10\<rparr>)
   \<and> issued (handleSubmit \<lparr>emitted = [],
      formData = \<lparr>name_text = ''Rice'', sku_text = ''R-1'', quantity_text = ''.0'',
        price_text = ''2.5'', reorderLevel_text = ''10''\<rparr>,
      loading = False\<rparr>)
   = Some (onAddProduct \<lparr>name = ''Rice'', sku = ''R-1'', quantity = NaN, price = Fin (5 / 2),
       reorderLevel = Fin 10\<rparr>)"
proof -
  have "parseInt ''abc'' = NaN"
    by (simp add: parseInt_def int_literal_def is_white_space_def is_white_space2_def
        is_white_space3_def is_digit_in_def digit_of_def)
  moreover have "parseInt ''.0'' = NaN"
    by (simp add: parseInt_def int_literal_def is_white_space_def is_white_space2_def
        is_white_space3_def is_digit_in_def digit_of_def)
  moreover have "parseInt ''10'' = Fin 10"
    using fl_of_int [of 10]
    by (simp add: parseInt_def int_literal_def is_white_space_def is_white_space2_def
        is_white_space3_def is_digit_in_def digit_of_def digits_value_def signed_def)
  moreover have "parseFloat ''2.5'' = Fin (5 / 2)"
    using fl_dyadic [of 5 1]
    by (simp add: parseFloat_def float_literal_def is_white_space_def is_white_space2_def
        is_white_space3_def is_digit_in_def digit_of_def digits_value_def signed_def
        exponent_part_def power_int_minus)
  ultimately show ?thesis by (simp add: handleSubmit_def product_of_form_def)
qed

end
